theory Spec2Isabelle
  imports Main
begin

section \<open>Strings as the handlers use them\<close>

text \<open>
  JavaScript strings are modelled as \<open>string\<close>. The three string methods the handlers
  call are \<open>startsWith\<close>, \<open>endsWith\<close> and the one-argument \<open>substring\<close>
  (which yields the empty string when the start index is past the end).
\<close>

definition startsWith :: "string \<Rightarrow> string \<Rightarrow> bool" where
  "startsWith s p = (take (length p) s = p)"

definition endsWith :: "string \<Rightarrow> string \<Rightarrow> bool" where
  "endsWith s p = (length p \<le> length s \<and> drop (length s - length p) s = p)"

definition substring :: "string \<Rightarrow> nat \<Rightarrow> string" where
  "substring s n = drop n s"

section \<open>The path module (POSIX flavour)\<close>

text \<open>
  \<open>path.join\<close>, \<open>path.dirname\<close> and \<open>path.extname\<close> belong to the Node.js
  runtime, not to the repository. They are modelled here for POSIX separators:
  \<^item> \<open>normalizeString\<close> walks the segments between slashes, drops empty and \<open>.\<close>
    segments and lets \<open>..\<close> remove the segment before it (or keeps it, for a relative
    path that climbs above its start);
  \<^item> \<open>path_normalize\<close> keeps a leading and a trailing slash around that;
  \<^item> \<open>path_join\<close> glues the non-empty arguments with slashes and normalises;
  \<^item> \<open>path_dirname\<close> cuts at the last slash that is followed by a segment;
  \<^item> \<open>path_extname\<close> is the part of the last segment from its last dot on, empty when
    there is no dot, when the dot is the segment's first character, or when the segment
    is \<open>..\<close>.
\<close>

fun split_sep :: "char \<Rightarrow> string \<Rightarrow> string list" where
  "split_sep c [] = [[]]"
| "split_sep c (x # xs) =
     (if x = c then [] # split_sep c xs
      else (case split_sep c xs of
              [] \<Rightarrow> [[x]]
            | y # ys \<Rightarrow> (x # y) # ys))"

fun join_sep :: "string list \<Rightarrow> string" where
  "join_sep [] = []"
| "join_sep [s] = s"
| "join_sep (s # t # ss) = s @ ''/'' @ join_sep (t # ss)"

text \<open>The stack of kept segments is held innermost first.\<close>

definition norm_step :: "bool \<Rightarrow> string list \<Rightarrow> string \<Rightarrow> string list" where
  "norm_step allowAboveRoot st seg =
     (if seg = [] \<or> seg = ''.'' then st
      else if seg = ''..'' then
        (case st of
           [] \<Rightarrow> (if allowAboveRoot then [''..''] else [])
         | t # ts \<Rightarrow>
             (if t = ''..'' then (if allowAboveRoot then ''..'' # st else st) else ts))
      else seg # st)"

definition normalizeString :: "string \<Rightarrow> bool \<Rightarrow> string" where
  "normalizeString p allowAboveRoot =
     join_sep (rev (foldl (norm_step allowAboveRoot) [] (split_sep (CHR ''/'') p)))"

definition path_normalize :: "string \<Rightarrow> string" where
  "path_normalize p =
     (if p = [] then ''.''
      else
        (let isAbsolute = (hd p = CHR ''/'');
             trailingSeparator = (last p = CHR ''/'');
             q = normalizeString p (\<not> isAbsolute)
         in if q = [] then (if isAbsolute then ''/'' else if trailingSeparator then ''./'' else ''.'')
            else (if isAbsolute then ''/'' else []) @ q @ (if trailingSeparator then ''/'' else [])))"

definition path_join :: "string list \<Rightarrow> string" where
  "path_join args =
     (let parts = filter (\<lambda>a. a \<noteq> []) args
      in if parts = [] then ''.'' else path_normalize (join_sep parts))"

definition path_dirname :: "string \<Rightarrow> string" where
  "path_dirname p =
     (if p = [] then ''.''
      else
        (let hasRoot = (hd p = CHR ''/'');
             afterSegment = dropWhile (\<lambda>c. c \<noteq> CHR ''/'')
                              (dropWhile (\<lambda>c. c = CHR ''/'') (rev (tl p)));
             cut = length afterSegment
         in if afterSegment = [] then (if hasRoot then ''/'' else ''.'')
            else if hasRoot \<and> cut = 1 then ''//''
            else take cut p))"

definition path_extname :: "string \<Rightarrow> string" where
  "path_extname p =
     (let baseRev = takeWhile (\<lambda>c. c \<noteq> CHR ''/'') (dropWhile (\<lambda>c. c = CHR ''/'') (rev p));
          base = rev baseRev;
          ext = rev (takeWhile (\<lambda>c. c \<noteq> CHR ''.'') baseRev);
          stem = rev (tl (dropWhile (\<lambda>c. c \<noteq> CHR ''.'') baseRev))
      in if CHR ''.'' \<notin> set base then []
         else if stem = [] then []
         else if base = ''..'' then []
         else CHR ''.'' # ext)"

section \<open>Responses\<close>

text \<open>
  A response is what the handler asked Express to send: the status (200 unless
  \<open>res.status\<close> was called), the \<open>Content-Type\<close> the handler set with \<open>res.set\<close>
  (if any), and the body: \<open>res.sendFile p\<close> streams the file at \<open>p\<close>, \<open>res.send s\<close>
  sends the text \<open>s\<close>, \<open>res.json o\<close> sends the object \<open>o\<close>, and \<open>DefaultPage\<close>
  is the page Express writes itself when no handler answers. What Express and Node then
  make of it on the wire (no body for a HEAD request or for a status that carries none,
  compression, conditional requests) is not part of the record.
\<close>

datatype json =
    JNull
  | JBool bool
  | JNumber int
  | JString string
  | JArray "json list"
  | JObject "(string \<times> json) list"

datatype body = SendFile string | Send string | Json json | DefaultPage

record response =
  status :: nat
  contentType :: "string option"
  body :: body

text \<open>
  An error object as the handlers read it: \<open>err.status\<close>, \<open>err.message\<close> and
  \<open>err.stack\<close>. Each is undefined (\<open>None\<close>) or holds a value of any kind: a number, a
  text, a boolean, \<open>null\<close>, an array or an object. Numbers are whole numbers here.
\<close>

record errorObject =
  errStatus :: "json option"
  errMessage :: "json option"
  errStack :: "json option"

text \<open>
  What a middleware or route handler does with a request: it calls \<open>next()\<close>, it
  calls \<open>next(err)\<close> (or throws), or it sends a response.
\<close>

datatype outcome = Next | NextError errorObject | Responded response

section \<open>vite-express-handler.js\<close>

text \<open>
  The two things of the outside world the handler reads are parameters: \<open>mime\<close> is
  \<open>mime.lookup\<close> of the mime-types package (\<open>None\<close> for its \<open>false\<close>), and \<open>fs\<close> is
  \<open>fs.existsSync\<close>.
\<close>

type_synonym mime_lookup = "string \<Rightarrow> string option"
type_synonym filesystem = "string \<Rightarrow> bool"

definition getMimeType :: "mime_lookup \<Rightarrow> string \<Rightarrow> string" where
  "getMimeType mime filePath =
     (if endsWith filePath ''.js'' \<or> endsWith filePath ''.mjs'' then ''application/javascript''
      else if endsWith filePath ''.css'' then ''text/css''
      else if endsWith filePath ''.html'' then ''text/html''
      else if endsWith filePath ''.svg'' then ''image/svg+xml''
      else if endsWith filePath ''.json'' then ''application/json''
      else (case mime filePath of
              None \<Rightarrow> ''application/octet-stream''
            | Some t \<Rightarrow> (if t = [] then ''application/octet-stream'' else t)))"

definition notFound :: response where
  "notFound = \<lparr>status = 404, contentType = None, body = Send ''Not found''\<rparr>"

definition serveFile :: "mime_lookup \<Rightarrow> filesystem \<Rightarrow> string \<Rightarrow> bool \<Rightarrow> response" where
  "serveFile mime fs filePath fallbackToIndex =
     (if fs filePath then
        \<lparr>status = 200, contentType = Some (getMimeType mime filePath), body = SendFile filePath\<rparr>
      else if fallbackToIndex then
        (let indexPath = path_join [path_dirname filePath, ''index.html'']
         in if fs indexPath then
              \<lparr>status = 200, contentType = Some ''text/html'', body = SendFile indexPath\<rparr>
            else notFound)
      else notFound)"

text \<open>The handler of the route \<open>urlPrefix + '/assets/*'\<close>.\<close>

definition assetsHandler :: "mime_lookup \<Rightarrow> filesystem \<Rightarrow> string \<Rightarrow> string \<Rightarrow> string \<Rightarrow> outcome" where
  "assetsHandler mime fs distPath urlPrefix reqPath =
     (let assetPath = substring reqPath (length (urlPrefix @ ''/assets/''));
          fullAssetPath = path_join [distPath, ''assets'', assetPath]
      in Responded (serveFile mime fs fullAssetPath False))"

text \<open>The handler of the route \<open>urlPrefix + '/*'\<close>; \<open>Next\<close> is its call of \<open>next()\<close>.\<close>

definition staticHandler :: "mime_lookup \<Rightarrow> filesystem \<Rightarrow> string \<Rightarrow> string \<Rightarrow> string \<Rightarrow> outcome" where
  "staticHandler mime fs distPath urlPrefix reqPath =
     (if startsWith reqPath ''/api/'' then Next
      else
        (let rest = substring reqPath (length urlPrefix);
             filePath = (if rest = [] then ''/'' else rest);
             fullPath = path_join [distPath, filePath];
             indexPath = path_join [distPath, filePath, ''index.html'']
         in if (endsWith filePath ''/'' \<or> path_extname filePath = []) \<and> fs indexPath
            then Responded (serveFile mime fs indexPath False)
            else Responded (serveFile mime fs fullPath True)))"

text \<open>
  The last route, \<open>app.get('*')\<close>. It takes the resolved settings of
  \<open>setupViteFrontends\<close>: the two full directory paths and the admin prefix.
\<close>

record settings =
  userDistFullPath :: string
  adminDistFullPath :: string
  adminPathPrefix :: string

definition apiNotFound :: response where
  "apiNotFound =
     \<lparr>status = 404, contentType = None,
      body = Json (JObject [(''error'', JString ''API endpoint not found'')])\<rparr>"

definition catchAllHandler :: "mime_lookup \<Rightarrow> filesystem \<Rightarrow> settings \<Rightarrow> string \<Rightarrow> outcome" where
  "catchAllHandler mime fs cfg reqPath =
     (if startsWith reqPath ''/api/'' then Responded apiNotFound
      else
        (let adminIndex = path_join [adminDistFullPath cfg, ''index.html''];
             userIndex = path_join [userDistFullPath cfg, ''index.html'']
         in if startsWith reqPath (adminPathPrefix cfg) \<and> fs adminIndex
            then Responded (serveFile mime fs adminIndex False)
            else if fs userIndex then Responded (serveFile mime fs userIndex False)
            else Responded notFound))"

subsection \<open>Routes and their order\<close>

text \<open>
  Express keeps the routes in the order of their registration and gives a request to the
  first one whose path pattern and verb match; a handler that calls \<open>next()\<close> passes the
  request on to the later routes. The patterns registered are either a literal followed
  by \<open>*\<close>, which Express compiles to a regular expression accepting every path that
  begins with the literal, or a plain literal, which accepts that path with or without a
  closing slash; letters are compared without regard to case (routing is case insensitive
  unless configured otherwise). Request paths are taken to hold no line terminator, as in
  an HTTP request line. A route registered with \<open>app.get\<close> also answers HEAD.
\<close>

datatype verb = GET | HEAD | POST | PUT | DELETE | OPTIONS | PATCH

record request =
  reqVerb :: verb
  reqPath :: string
  reqContentType :: "string option"
  reqBodyLength :: nat
  reqClient :: string

definition lowerChar :: "char \<Rightarrow> char" where
  "lowerChar c =
     (case map_of (zip ''ABCDEFGHIJKLMNOPQRSTUVWXYZ'' ''abcdefghijklmnopqrstuvwxyz'') c of
        None \<Rightarrow> c
      | Some d \<Rightarrow> d)"

definition routeMatches :: "string \<Rightarrow> string \<Rightarrow> bool" where
  "routeMatches pat p =
     (if pat \<noteq> [] \<and> last pat = CHR ''*''
      then startsWith (map lowerChar p) (map lowerChar (butlast pat))
      else (map lowerChar p = map lowerChar pat \<or> map lowerChar p = map lowerChar pat @ ''/''))"

definition answersGet :: "verb \<Rightarrow> bool" where
  "answersGet v = (v = GET \<or> v = HEAD)"

type_synonym route = "string \<times> (string \<Rightarrow> outcome)"

fun runRoutes :: "route list \<Rightarrow> request \<Rightarrow> outcome" where
  "runRoutes [] req = Next"
| "runRoutes ((pat, h) # rs) req =
     (if answersGet (reqVerb req) \<and> routeMatches pat (reqPath req) then
        (case h (reqPath req) of
           Next \<Rightarrow> runRoutes rs req
         | NextError e \<Rightarrow> NextError e
         | Responded r \<Rightarrow> Responded r)
      else runRoutes rs req)"

definition handleAssets :: "mime_lookup \<Rightarrow> filesystem \<Rightarrow> string \<Rightarrow> string \<Rightarrow> route list" where
  "handleAssets mime fs distPath urlPrefix =
     [(urlPrefix @ ''/assets/*'', assetsHandler mime fs distPath urlPrefix),
      (urlPrefix @ ''/*'', staticHandler mime fs distPath urlPrefix)]"

text \<open>
  The options of \<open>setupViteFrontends\<close>, each possibly absent, and their defaults;
  \<open>cwd\<close> is \<open>process.cwd()\<close>. The function registers the two routes of the admin
  build, the two of the user build and the last route, in this order; what it writes to
  the console (the warnings of \<open>verifyPaths\<close> and the closing lines) is left out.
\<close>

record options =
  optUserDistPath :: "string option"
  optAdminDistPath :: "string option"
  optAdminPathPrefix :: "string option"
  optRootDir :: "string option"

definition orDefault :: "'a option \<Rightarrow> 'a \<Rightarrow> 'a" where
  "orDefault v d = (case v of None \<Rightarrow> d | Some x \<Rightarrow> x)"

definition resolveOptions :: "string \<Rightarrow> options option \<Rightarrow> settings" where
  "resolveOptions cwd options =
     (let userDistPath = orDefault (Option.bind options optUserDistPath) ''user_dist'';
          adminDistPath = orDefault (Option.bind options optAdminDistPath) ''admin_dist'';
          prefix = orDefault (Option.bind options optAdminPathPrefix) ''/admin'';
          rootDir = orDefault (Option.bind options optRootDir) cwd
      in \<lparr>userDistFullPath = path_join [rootDir, userDistPath],
          adminDistFullPath = path_join [rootDir, adminDistPath],
          adminPathPrefix = prefix\<rparr>)"

definition setupViteFrontends :: "mime_lookup \<Rightarrow> filesystem \<Rightarrow> string \<Rightarrow> options option \<Rightarrow> route list" where
  "setupViteFrontends mime fs cwd options =
     (let cfg = resolveOptions cwd options
      in handleAssets mime fs (adminDistFullPath cfg) (adminPathPrefix cfg) @
         handleAssets mime fs (userDistFullPath cfg) [] @
         [(''*'', catchAllHandler mime fs cfg)])"

text \<open>
  The options the server passes (\<open>dir\<close> is its \<open>__dirname\<close>): full paths for both
  directories and an empty root.
\<close>

definition serverOptions :: "string \<Rightarrow> options" where
  "serverOptions dir =
     \<lparr>optUserDistPath = Some (path_join [dir, ''user_dist'']),
      optAdminDistPath = Some (path_join [dir, ''admin_dist'']),
      optAdminPathPrefix = Some ''/admin'',
      optRootDir = Some []\<rparr>"

definition frontends :: "mime_lookup \<Rightarrow> filesystem \<Rightarrow> string \<Rightarrow> string \<Rightarrow> request \<Rightarrow> outcome" where
  "frontends mime fs cwd dir req =
     runRoutes (setupViteFrontends mime fs cwd (Some (serverOptions dir))) req"

text \<open>
  A deployment with the server in \<open>/srv/app\<close>, whose user directory holds
  \<open>index.html\<close> and nothing else; no admin build, no \<open>assets\<close> directory.
\<close>

definition onlyIndexFs :: filesystem where
  "onlyIndexFs p =
     (p = ''/srv/app'' \<or> p = ''/srv/app/'' \<or> p = ''/srv/app/user_dist'' \<or>
      p = ''/srv/app/user_dist/'' \<or> p = ''/srv/app/user_dist/index.html'')"

definition getRequest :: "string \<Rightarrow> request" where
  "getRequest p =
     \<lparr>reqVerb = GET, reqPath = p, reqContentType = None, reqBodyLength = 0,
      reqClient = ''203.0.113.7''\<rparr>"

definition bothBuildsFs :: filesystem where
  "bothBuildsFs p =
     (p = ''/srv/app/user_dist'' \<or> p = ''/srv/app/user_dist/index.html'' \<or>
      p = ''/srv/app/user_dist/assets'' \<or> p = ''/srv/app/user_dist/assets/index-4f2a.js'' \<or>
      p = ''/srv/app/admin_dist'' \<or> p = ''/srv/app/admin_dist/index.html'' \<or>
      p = ''/srv/app/admin_dist/assets'' \<or> p = ''/srv/app/admin_dist/assets/admin-91c0.js'')"

definition sampleMime :: mime_lookup where
  "sampleMime p = (if endsWith p ''.png'' then Some ''image/png'' else None)"

definition serverSettings :: settings where
  "serverSettings = resolveOptions ''/srv/app'' (Some (serverOptions ''/srv/app''))"

section \<open>The server module\<close>

subsection \<open>The clock\<close>

text \<open>
  \<open>new Date()\<close> is the current time; it is held here as its UTC fields, which for a
  \<open>Date\<close> object are always in range (\<open>validDate\<close>). \<open>toISOString\<close> writes them
  as \<open>YYYY-MM-DDTHH:mm:ss.sssZ\<close>, the year with a sign and six digits when it lies
  outside 0..9999.
\<close>

record utcDate =
  utcYear :: int
  utcMonth :: nat
  utcDay :: nat
  utcHours :: nat
  utcMinutes :: nat
  utcSeconds :: nat
  utcMillis :: nat

definition validDate :: "utcDate \<Rightarrow> bool" where
  "validDate d =
     (1 \<le> utcMonth d \<and> utcMonth d \<le> 12 \<and> 1 \<le> utcDay d \<and> utcDay d \<le> 31 \<and>
      utcHours d < 24 \<and> utcMinutes d < 60 \<and> utcSeconds d < 60 \<and> utcMillis d < 1000)"

definition isDigit :: "char \<Rightarrow> bool" where
  "isDigit c = (c \<in> set ''0123456789'')"

definition digitChar :: "nat \<Rightarrow> char" where
  "digitChar n = ''0123456789'' ! (n mod 10)"

definition digitValue :: "char \<Rightarrow> nat" where
  "digitValue c = length (takeWhile (\<lambda>d. d \<noteq> c) ''0123456789'')"

definition twoDigits :: "nat \<Rightarrow> string" where
  "twoDigits n = [digitChar (n div 10), digitChar n]"

definition threeDigits :: "nat \<Rightarrow> string" where
  "threeDigits n = [digitChar (n div 100), digitChar (n div 10), digitChar n]"

definition fourDigits :: "nat \<Rightarrow> string" where
  "fourDigits n = [digitChar (n div 1000), digitChar (n div 100), digitChar (n div 10), digitChar n]"

definition sixDigits :: "nat \<Rightarrow> string" where
  "sixDigits n = digitChar (n div 100000) # digitChar (n div 10000) # fourDigits n"

definition yearDigits :: "int \<Rightarrow> string" where
  "yearDigits y =
     (if 0 \<le> y \<and> y \<le> 9999 then fourDigits (nat y)
      else (if y < 0 then ''-'' else ''+'') @ sixDigits (nat \<bar>y\<bar>))"

definition toISOString :: "utcDate \<Rightarrow> string" where
  "toISOString d =
     yearDigits (utcYear d) @ ''-'' @ twoDigits (utcMonth d) @ ''-'' @ twoDigits (utcDay d) @
     ''T'' @ twoDigits (utcHours d) @ '':'' @ twoDigits (utcMinutes d) @ '':'' @
     twoDigits (utcSeconds d) @ ''.'' @ threeDigits (utcMillis d) @ ''Z''"

text \<open>
  The check a reader of the timestamp makes: the ISO-8601 calendar date and time of
  day in UTC, \<open>YYYY-MM-DDTHH:mm:ss.sssZ\<close>, every field a number in its range; the year
  has four digits, or a sign and six digits.
\<close>

definition twoValue :: "string \<Rightarrow> nat \<Rightarrow> nat" where
  "twoValue s i = 10 * digitValue (s ! i) + digitValue (s ! Suc i)"

definition isoMonthToZone :: "string \<Rightarrow> bool" where
  "isoMonthToZone s =
     (length s = 20 \<and>
      list_all (\<lambda>i. isDigit (s ! i)) [1, 2, 4, 5, 7, 8, 10, 11, 13, 14, 16, 17, 18] \<and>
      s ! 0 = CHR ''-'' \<and> s ! 3 = CHR ''-'' \<and> s ! 6 = CHR ''T'' \<and> s ! 9 = CHR '':'' \<and>
      s ! 12 = CHR '':'' \<and> s ! 15 = CHR ''.'' \<and> s ! 19 = CHR ''Z'' \<and>
      1 \<le> twoValue s 1 \<and> twoValue s 1 \<le> 12 \<and> 1 \<le> twoValue s 4 \<and> twoValue s 4 \<le> 31 \<and>
      twoValue s 7 < 24 \<and> twoValue s 10 < 60 \<and> twoValue s 13 < 60)"

definition isoTimestamp :: "string \<Rightarrow> bool" where
  "isoTimestamp s =
     (if length s = 24 then list_all isDigit (take 4 s) \<and> isoMonthToZone (drop 4 s)
      else if length s = 27 then
        (hd s = CHR ''+'' \<or> hd s = CHR ''-'') \<and> list_all isDigit (take 6 (tl s)) \<and>
        isoMonthToZone (drop 7 s)
      else False)"

text \<open>
  What the module reads from its process: \<open>process.env.NODE_ENV\<close>, \<open>Date.now()\<close> in
  milliseconds, and \<open>new Date()\<close>. Two things the JavaScript engine and Node do are
  parameters as well: \<open>toInt32\<close> is the conversion of a value that is not a number to a
  32-bit integer (a text that reads as a number gives that number, any other text gives
  0), and \<open>statusCodeError\<close> is the \<open>RangeError\<close> that Node throws when it is asked to
  write the given value as a status code.
\<close>

record runtime =
  nodeEnv :: "string option"
  dateNow :: nat
  newDate :: utcDate
  toInt32 :: "json \<Rightarrow> int"
  statusCodeError :: "json \<Rightarrow> errorObject"

subsection \<open>Rate limiting\<close>

text \<open>The options object given to \<open>rateLimit\<close>.\<close>

record rateLimitOptions =
  windowMs :: nat
  maxLimit :: nat
  standardHeaders :: bool
  legacyHeaders :: bool
  message :: json

definition limiter :: rateLimitOptions where
  "limiter =
     \<lparr>windowMs = 15 * 60 * 1000,
      maxLimit = 500,
      standardHeaders = True,
      legacyHeaders = False,
      message = JObject [(''success'', JBool False),
                         (''message'', JString ''Too many requests, please try again later.'')]\<rparr>"

type_synonym hitStore = "string \<Rightarrow> (nat \<times> nat) option"

text \<open>
  Modelled from the spec: the middleware that \<open>rateLimit(options)\<close> returns belongs to
  the express-rate-limit package, which is not among the sources. Following the
  specification (window 15 minutes, max 500 requests per client identity, responds with
  429-style JSON when exceeded), it counts the requests of each client identity in a
  store that holds, per client, the number of hits and the time at which its window ends;
  a hit after that time opens a new window. A request whose hit number is above the
  maximum is answered with status 429 and the configured message, every other request is
  passed on.
\<close>

definition tooManyRequests :: "rateLimitOptions \<Rightarrow> response" where
  "tooManyRequests opts = \<lparr>status = 429, contentType = None, body = Json (message opts)\<rparr>"

text \<open>Modelled from the spec: the counting just described.\<close>

definition rateLimit :: "rateLimitOptions \<Rightarrow> hitStore \<Rightarrow> nat \<Rightarrow> request \<Rightarrow> hitStore \<times> outcome" where
  "rateLimit opts store t req =
     (let entry =
            (case store (reqClient req) of
               None \<Rightarrow> (1, t + windowMs opts)
             | Some (hits, resetTime) \<Rightarrow>
                 if t < resetTime then (Suc hits, resetTime) else (1, t + windowMs opts))
      in (store(reqClient req \<mapsto> entry),
          if maxLimit opts < fst entry then Responded (tooManyRequests opts) else Next))"

text \<open>
  Modelled from the spec: the headers the rate limiter sets (standard rate-limit headers
  only) are those its two options switch on, the \<open>RateLimit-*\<close> ones for
  \<open>standardHeaders\<close> and the \<open>X-RateLimit-*\<close> ones for \<open>legacyHeaders\<close>.
\<close>

definition rateLimitHeaders :: "rateLimitOptions \<Rightarrow> string list" where
  "rateLimitHeaders opts =
     (if standardHeaders opts
      then [''RateLimit-Limit'', ''RateLimit-Remaining'', ''RateLimit-Reset''] else []) @
     (if legacyHeaders opts
      then [''X-RateLimit-Limit'', ''X-RateLimit-Remaining'', ''X-RateLimit-Reset''] else [])"

text \<open>A run of timed requests through the limiter, the store threaded along.\<close>

fun limitAll :: "rateLimitOptions \<Rightarrow> hitStore \<Rightarrow> (nat \<times> request) list \<Rightarrow> outcome list" where
  "limitAll opts store [] = []"
| "limitAll opts store ((t, req) # rest) =
     snd (rateLimit opts store t req) # limitAll opts (fst (rateLimit opts store t req)) rest"

definition hitsOf :: "string \<Rightarrow> (nat \<times> request) list \<Rightarrow> nat" where
  "hitsOf c reqs = length (filter (\<lambda>tr. reqClient (snd tr) = c) reqs)"

subsection \<open>Body parsers\<close>

text \<open>
  Modelled from the spec: the limit of a body parser is a string that the library reads
  as a count and a binary unit (50 MB payload ceiling), so \<open>50mb\<close> is \<open>50 * 2^20\<close>
  bytes.
\<close>

definition decimal :: "string \<Rightarrow> nat" where
  "decimal ds = foldl (\<lambda>a c. 10 * a + digitValue c) 0 ds"

definition unitFactor :: "string \<Rightarrow> nat option" where
  "unitFactor u =
     map_of [(''b'', 1), (''kb'', 2 ^ 10), (''mb'', 2 ^ 20), (''gb'', 2 ^ 30)] (map lowerChar u)"

definition bytesParse :: "string \<Rightarrow> nat option" where
  "bytesParse s =
     (let ds = takeWhile isDigit s; u = dropWhile isDigit s
      in if ds = [] then None else map_option (\<lambda>f. decimal ds * f) (unitFactor u))"

definition payloadTooLarge :: errorObject where
  "payloadTooLarge =
     \<lparr>errStatus = Some (JNumber 413), errMessage = Some (JString ''request entity too large''),
      errStack = Some (JString ''PayloadTooLargeError: request entity too large'')\<rparr>"

text \<open>
  Modelled from the spec: \<open>express.json\<close> and \<open>express.urlencoded\<close> are library code,
  not among the sources. Following the specification (parse JSON and form bodies with
  a 50 MB payload ceiling; reject larger bodies with a client error), a parser looks
  at a request whose media type is its own, and passes on the error with status 413 when
  the body is longer than the limit. \<open>reqContentType\<close> holds the media type of the
  request's \<open>Content-Type\<close> header.
\<close>

definition bodyParser :: "string \<Rightarrow> string \<Rightarrow> request \<Rightarrow> outcome" where
  "bodyParser mediaType limit req =
     (if reqContentType req = Some mediaType then
        (case bytesParse limit of
           None \<Rightarrow> Next
         | Some n \<Rightarrow> if n < reqBodyLength req then NextError payloadTooLarge else Next)
      else Next)"

definition express_json :: "string \<Rightarrow> request \<Rightarrow> outcome" where
  "express_json limit = bodyParser ''application/json'' limit"

definition express_urlencoded :: "string \<Rightarrow> request \<Rightarrow> outcome" where
  "express_urlencoded limit = bodyParser ''application/x-www-form-urlencoded'' limit"

subsection \<open>The handlers of the module\<close>

definition statusHandler :: "runtime \<Rightarrow> request \<Rightarrow> outcome" where
  "statusHandler rt req =
     Responded
       \<lparr>status = 200, contentType = None,
        body = Json (JObject [(''status'', JString ''OK''),
                              (''time'', JString (toISOString (newDate rt)))])\<rparr>"

text \<open>
  \<open>a || b\<close> is \<open>a\<close> when \<open>a\<close> is truthy and \<open>b\<close> otherwise; undefined, \<open>null\<close>,
  \<open>false\<close>, zero and the empty text are falsy, every other value is truthy.
\<close>

definition truthy :: "json \<Rightarrow> bool" where
  "truthy v =
     (case v of
        JNull \<Rightarrow> False
      | JBool b \<Rightarrow> b
      | JNumber n \<Rightarrow> n \<noteq> 0
      | JString t \<Rightarrow> t \<noteq> []
      | JArray xs \<Rightarrow> True
      | JObject es \<Rightarrow> True)"

definition orElse :: "json option \<Rightarrow> json \<Rightarrow> json" where
  "orElse a b = (case a of None \<Rightarrow> b | Some v \<Rightarrow> if truthy v then v else b)"

text \<open>
  \<open>res.status(code).json(obj)\<close>. Express stores the code as it is given and hands
  the object to Node to be written. Node converts the code to a 32-bit integer (a whole
  number is wrapped into the range, another value is converted by the engine) and
  refuses an integer outside 100..999 by throwing a \<open>RangeError\<close>, an error without a
  \<open>status\<close>; the call then sends nothing, and Express takes the thrown error as the
  handler's \<open>next(err)\<close>.
\<close>

definition int32 :: "int \<Rightarrow> int" where
  "int32 n = (n + 2 ^ 31) mod 2 ^ 32 - 2 ^ 31"

definition statusInt32 :: "runtime \<Rightarrow> json \<Rightarrow> int" where
  "statusInt32 rt code = (case code of JNumber n \<Rightarrow> int32 n | _ \<Rightarrow> toInt32 rt code)"

definition resStatusJson :: "runtime \<Rightarrow> json \<Rightarrow> json \<Rightarrow> outcome" where
  "resStatusJson rt code obj =
     (let n = statusInt32 rt code
      in if n < 100 \<or> 999 < n then NextError ((statusCodeError rt code)\<lparr>errStatus := None\<rparr>)
         else Responded \<lparr>status = nat n, contentType = None, body = Json obj\<rparr>)"

text \<open>
  The error handler. The \<open>stack\<close> entry is spread into the object only when
  \<open>NODE_ENV\<close> is \<open>development\<close>, and an undefined stack is left out of the JSON text.
  The line the handler writes to the console is left out.
\<close>

definition apiErrorHandler :: "runtime \<Rightarrow> errorObject \<Rightarrow> request \<Rightarrow> outcome" where
  "apiErrorHandler rt err req =
     (let statusCode = orElse (errStatus err) (JNumber 500)
      in resStatusJson rt statusCode
           (JObject
              ([(''success'', JBool False),
                (''message'', orElse (errMessage err) (JString ''Internal server error'')),
                (''statusCode'', statusCode)] @
               (if nodeEnv rt = Some ''development''
                then (case errStack err of None \<Rightarrow> [] | Some st \<Rightarrow> [(''stack'', st)])
                else []) @
               [(''timestamp'', JString (toISOString (newDate rt)))])))"

subsection \<open>The middleware chain\<close>

text \<open>
  Express walks the layers in the order of their registration. While no error is
  pending it calls the ordinary layers whose path matches and skips the error handlers;
  once a layer has passed an error on, it skips the ordinary layers and calls the error
  handlers whose path matches. When the layers are used up it answers itself: 404, or
  the status of the pending error when that is a 4xx or 5xx number, else 500.
  \<open>app.use(mount, f)\<close> matches the mount path itself and every path below it.
\<close>

datatype layer =
    Use "request \<Rightarrow> bool" "request \<Rightarrow> outcome"
  | UseError "request \<Rightarrow> bool" "errorObject \<Rightarrow> request \<Rightarrow> outcome"

definition notHandled :: response where
  "notHandled = \<lparr>status = 404, contentType = None, body = DefaultPage\<rparr>"

definition defaultErrorPage :: "errorObject \<Rightarrow> response" where
  "defaultErrorPage err =
     \<lparr>status = (case errStatus err of
                  Some (JNumber n) \<Rightarrow> if 400 \<le> n \<and> n < 600 then nat n else 500
                | _ \<Rightarrow> 500),
      contentType = None, body = DefaultPage\<rparr>"

fun runLayers :: "layer list \<Rightarrow> errorObject option \<Rightarrow> request \<Rightarrow> response" where
  "runLayers [] None req = notHandled"
| "runLayers [] (Some err) req = defaultErrorPage err"
| "runLayers (Use m h # ls) None req =
     (if m req then
        (case h req of
           Next \<Rightarrow> runLayers ls None req
         | NextError err \<Rightarrow> runLayers ls (Some err) req
         | Responded r \<Rightarrow> r)
      else runLayers ls None req)"
| "runLayers (Use m h # ls) (Some err) req = runLayers ls (Some err) req"
| "runLayers (UseError m h # ls) None req = runLayers ls None req"
| "runLayers (UseError m h # ls) (Some err) req =
     (if m req then
        (case h err req of
           Next \<Rightarrow> runLayers ls None req
         | NextError err' \<Rightarrow> runLayers ls (Some err') req
         | Responded r \<Rightarrow> r)
      else runLayers ls (Some err) req)"

text \<open>What a run of ordinary layers does with a request: the first outcome that is not \<open>Next\<close>.\<close>

fun runNormal :: "layer list \<Rightarrow> request \<Rightarrow> outcome" where
  "runNormal [] req = Next"
| "runNormal (Use m h # ls) req =
     (if m req then
        (case h req of
           Next \<Rightarrow> runNormal ls req
         | NextError err \<Rightarrow> NextError err
         | Responded r \<Rightarrow> Responded r)
      else runNormal ls req)"
| "runNormal (UseError m h # ls) req = runNormal ls req"

definition ordinary :: "layer \<Rightarrow> bool" where
  "ordinary l = (case l of Use m h \<Rightarrow> True | UseError m h \<Rightarrow> False)"

definition mountMatches :: "string \<Rightarrow> string \<Rightarrow> bool" where
  "mountMatches mount p =
     (map lowerChar p = map lowerChar mount \<or>
      startsWith (map lowerChar p) (map lowerChar mount @ ''/''))"

definition atMount :: "string \<Rightarrow> request \<Rightarrow> bool" where
  "atMount mount req = mountMatches mount (reqPath req)"

definition always :: "request \<Rightarrow> bool" where
  "always req = True"

definition onGet :: "string \<Rightarrow> request \<Rightarrow> bool" where
  "onGet pat req = (answersGet (reqVerb req) \<and> routeMatches pat (reqPath req))"

definition routeLayer :: "route \<Rightarrow> layer" where
  "routeLayer r = Use (onGet (fst r)) (\<lambda>req. snd r (reqPath req))"

text \<open>
  \<open>helmet()\<close> and \<open>compression()\<close> only decorate the response and pass the request
  on. The statistics middleware, the CORS middleware and the nine routers are other
  modules; they are parameters. The database connection and the temporary directory
  made at start-up take no part in the handling of a request.
\<close>

definition helmet :: "request \<Rightarrow> outcome" where
  "helmet req = Next"

definition compression :: "request \<Rightarrow> outcome" where
  "compression req = Next"

record collaborators =
  trackAPIStats :: "request \<Rightarrow> outcome"
  cors :: "request \<Rightarrow> outcome"
  propertyrouter :: "request \<Rightarrow> outcome"
  userrouter :: "request \<Rightarrow> outcome"
  formrouter :: "request \<Rightarrow> outcome"
  newsrouter :: "request \<Rightarrow> outcome"
  appointmentRouter :: "request \<Rightarrow> outcome"
  adminRouter :: "request \<Rightarrow> outcome"
  adminProperties :: "request \<Rightarrow> outcome"
  propertyRoutes :: "request \<Rightarrow> outcome"
  luckyrouter :: "request \<Rightarrow> outcome"

record deployment =
  mimeLookup :: mime_lookup
  existsSync :: filesystem
  processCwd :: string
  dirName :: string

definition securityLayers :: "hitStore \<Rightarrow> runtime \<Rightarrow> layer list" where
  "securityLayers store rt =
     [Use (atMount ''/api'') (\<lambda>req. snd (rateLimit limiter store (dateNow rt) req)),
      Use (atMount ''/api'') helmet,
      Use always compression]"

definition parserLayers :: "layer list" where
  "parserLayers =
     [Use always (express_json ''50mb''),
      Use always (express_urlencoded ''50mb'')]"

definition routerLayers :: "collaborators \<Rightarrow> layer list" where
  "routerLayers col =
     [Use (atMount ''/api'') (trackAPIStats col),
      Use always (cors col),
      Use (atMount ''/api/products'') (propertyrouter col),
      Use (atMount ''/api/users'') (userrouter col),
      Use (atMount ''/api/forms'') (formrouter col),
      Use (atMount ''/api/news'') (newsrouter col),
      Use (atMount ''/api/appointments'') (appointmentRouter col),
      Use (atMount ''/api/admin'') (adminRouter col),
      Use (atMount ''/api/properties'') (adminProperties col),
      Use (atMount ''/api'') (propertyRoutes col),
      Use (atMount ''/api'') (luckyrouter col)]"

definition frontendLayers :: "deployment \<Rightarrow> layer list" where
  "frontendLayers dep =
     map routeLayer
       (setupViteFrontends (mimeLookup dep) (existsSync dep) (processCwd dep)
          (Some (serverOptions (dirName dep))))"

text \<open>
  The layers of the module in the order of their registration: those up to the status
  route, the error handler of \<open>/api\<close>, and the routes of the two frontends.
\<close>

definition apiChain :: "collaborators \<Rightarrow> runtime \<Rightarrow> hitStore \<Rightarrow> layer list" where
  "apiChain col rt store =
     securityLayers store rt @ parserLayers @ routerLayers col @
     [Use (onGet ''/api/status'') (statusHandler rt)]"

definition appLayers :: "collaborators \<Rightarrow> runtime \<Rightarrow> hitStore \<Rightarrow> deployment \<Rightarrow> layer list" where
  "appLayers col rt store dep =
     apiChain col rt store @
     [UseError (atMount ''/api'') (apiErrorHandler rt)] @
     frontendLayers dep"

definition app :: "collaborators \<Rightarrow> runtime \<Rightarrow> hitStore \<Rightarrow> deployment \<Rightarrow> request \<Rightarrow> response" where
  "app col rt store dep req = runLayers (appLayers col rt store dep) None req"

subsection \<open>The process\<close>

text \<open>
  The process as the rejection handler sees it: the exit code once \<open>process.exit\<close> has
  been called, the lines written to the console, the requests that are being handled,
  and the answers given so far. After \<open>process.exit\<close> nothing more happens.
\<close>

datatype logLine = ConsoleLog string | ConsoleError errorObject

record process =
  exitCode :: "nat option"
  console :: "logLine list"
  inFlight :: "request list"
  answered :: "(request \<times> response) list"

definition shutdownMessage :: string where
  "shutdownMessage =
     ''UNHANDLED REJECTION! '' @ [CHR 0xF0, CHR 0x9F, CHR 0x92, CHR 0xA5] @ '' Shutting down...''"

definition onUnhandledRejection :: "errorObject \<Rightarrow> process \<Rightarrow> process" where
  "onUnhandledRejection err p =
     p\<lparr>console := console p @ [ConsoleLog shutdownMessage, ConsoleError err],
       exitCode := Some 1\<rparr>"

datatype event =
    UnhandledRejection errorObject
  | RequestArrived request
  | RequestAnswered request response

definition processStep :: "process \<Rightarrow> event \<Rightarrow> process" where
  "processStep p ev =
     (if exitCode p \<noteq> None then p
      else (case ev of
              UnhandledRejection err \<Rightarrow> onUnhandledRejection err p
            | RequestArrived req \<Rightarrow> p\<lparr>inFlight := inFlight p @ [req]\<rparr>
            | RequestAnswered req res \<Rightarrow>
                p\<lparr>inFlight := remove1 req (inFlight p), answered := answered p @ [(req, res)]\<rparr>))"

definition runEvents :: "process \<Rightarrow> event list \<Rightarrow> process" where
  "runEvents p evs = foldl processStep p evs"

subsection \<open>Reading an answer\<close>

definition statusOf :: "outcome \<Rightarrow> nat option" where
  "statusOf out = (case out of Responded r \<Rightarrow> Some (status r) | _ \<Rightarrow> None)"

definition jsonField :: "outcome \<Rightarrow> string \<Rightarrow> json option" where
  "jsonField out k =
     (case out of
        Responded r \<Rightarrow> (case body r of Json (JObject entries) \<Rightarrow> map_of entries k | _ \<Rightarrow> None)
      | _ \<Rightarrow> None)"

subsection \<open>Sample data\<close>

text \<open>A store in which the sample client has used up its 500 requests of the running window.\<close>

definition busyStore :: hitStore where
  "busyStore c = (if c = ''203.0.113.7'' then Some (500, 1710000600000) else None)"

definition sampleDate :: utcDate where
  "sampleDate =
     \<lparr>utcYear = 2024, utcMonth = 3, utcDay = 9, utcHours = 14, utcMinutes = 5,
      utcSeconds = 7, utcMillis = 42\<rparr>"

text \<open>
  A conversion that reads a text of decimal digits as its number and gives 0 for every
  other value that is not a number, and the error of a refused status code.
\<close>

definition sampleToInt32 :: "json \<Rightarrow> int" where
  "sampleToInt32 v =
     (case v of
        JString t \<Rightarrow> if t \<noteq> [] \<and> list_all isDigit t then int32 (int (decimal t)) else 0
      | _ \<Rightarrow> 0)"

definition sampleStatusCodeError :: "json \<Rightarrow> errorObject" where
  "sampleStatusCodeError v =
     \<lparr>errStatus = None, errMessage = Some (JString ''Invalid status code''),
      errStack = Some (JString ''RangeError [ERR_HTTP_INVALID_STATUS_CODE]: Invalid status code'')\<rparr>"

definition sampleRuntime :: "string option \<Rightarrow> runtime" where
  "sampleRuntime env =
     \<lparr>nodeEnv = env, dateNow = 1710000000000, newDate = sampleDate,
      toInt32 = sampleToInt32, statusCodeError = sampleStatusCodeError\<rparr>"

definition sampleError :: errorObject where
  "sampleError =
     \<lparr>errStatus = Some (JNumber 422), errMessage = Some (JString ''Invalid listing''),
      errStack = Some (JString ''Error: Invalid listing at addProperty'')\<rparr>"

definition postJson :: "string \<Rightarrow> nat \<Rightarrow> request" where
  "postJson p n =
     \<lparr>reqVerb = POST, reqPath = p, reqContentType = Some ''application/json'',
      reqBodyLength = n, reqClient = ''203.0.113.7''\<rparr>"

definition quietCollaborators :: collaborators where
  "quietCollaborators =
     \<lparr>trackAPIStats = (\<lambda>req. Next), cors = (\<lambda>req. Next), propertyrouter = (\<lambda>req. Next),
      userrouter = (\<lambda>req. Next), formrouter = (\<lambda>req. Next), newsrouter = (\<lambda>req. Next),
      appointmentRouter = (\<lambda>req. Next), adminRouter = (\<lambda>req. Next),
      adminProperties = (\<lambda>req. Next), propertyRoutes = (\<lambda>req. Next),
      luckyrouter = (\<lambda>req. Next)\<rparr>"

definition sampleDeployment :: deployment where
  "sampleDeployment =
     \<lparr>mimeLookup = sampleMime, existsSync = bothBuildsFs, processCwd = ''/srv/app'',
      dirName = ''/srv/app''\<rparr>"

definition failingCollaborators :: collaborators where
  "failingCollaborators = quietCollaborators\<lparr>propertyrouter := (\<lambda>req. NextError sampleError)\<rparr>"






text \<open>
  Six hundred and one requests of the sample client to \<open>/api/products\<close>, the first at
  time 1710000000000, the others five minutes later.
\<close>

definition burst :: "(nat \<times> request) list" where
  "burst = (1710000000000, getRequest ''/api/products'') #
           replicate 600 (1710000300000, getRequest ''/api/products'')"

definition idleProcess :: process where
  "idleProcess =
     \<lparr>exitCode = None, console = [ConsoleLog ''Server running on port 4000''],
      inFlight = [getRequest ''/api/products'', getRequest ''/''], answered = []\<rparr>"

section \<open>Properties of the path functions\<close>

lemma split_sep_nonempty: "split_sep c xs \<noteq> []"
  by (induction xs) (auto split: list.splits)

lemma split_sep_append: "split_sep c (xs @ c # ys) = split_sep c xs @ split_sep c ys"
proof (induction xs)
  case Nil
  show ?case by simp
next
  case (Cons x xs)
  show ?case
  proof (cases "x = c")
    case True
    with Cons show ?thesis by simp
  next
    case False
    obtain y ys' where s: "split_sep c xs = y # ys'"
      using split_sep_nonempty [of c xs] by (cases "split_sep c xs") auto
    with False Cons show ?thesis by simp
  qed
qed

lemma split_sep_plain: "c \<notin> set s \<Longrightarrow> split_sep c s = [s]"
  by (induction s) auto

lemma join_sep_snoc: "join_sep (xs @ [s]) = (if xs = [] then s else join_sep xs @ ''/'' @ s)"
  by (induction xs rule: join_sep.induct) auto

lemma normalizeString_index:
  "\<exists>pre. normalizeString (x @ ''/index.html'') ab = pre @ ''index.html''"
proof -
  have sp: "split_sep (CHR ''/'') (x @ ''/index.html'') = split_sep (CHR ''/'') x @ [''index.html'']"
    using split_sep_append [of "CHR ''/''" x "''index.html''"]
    by (simp add: split_sep_plain)
  show ?thesis
    by (simp add: normalizeString_def sp norm_step_def join_sep_snoc)
qed

lemma path_normalize_index:
  "\<exists>pre. path_normalize (x @ ''/index.html'') = pre @ ''index.html''"
proof -
  obtain pre where q: "normalizeString (x @ ''/index.html'') (\<not> (hd (x @ ''/index.html'') = CHR ''/'')) = pre @ ''index.html''"
    using normalizeString_index by blast
  show ?thesis
    by (simp add: path_normalize_def Let_def q del: hd_append)
qed

lemma path_join_index: "\<exists>pre. path_join [d, ''index.html''] = pre @ ''index.html''"
proof (cases "d = []")
  case True
  have "path_join [d, ''index.html''] = ''index.html''"
    using True by (simp add: path_join_def path_normalize_def normalizeString_def norm_step_def)
  then show ?thesis by (metis append_Nil)
next
  case False
  then show ?thesis
    using path_normalize_index [of d] by (simp add: path_join_def)
qed

lemma getMimeType_index: "getMimeType mime (path_join [d, ''index.html'']) = ''text/html''"
proof -
  obtain pre where p: "path_join [d, ''index.html''] = pre @ ''index.html''"
    using path_join_index by blast
  show ?thesis unfolding p by (simp add: getMimeType_def endsWith_def)
qed

section \<open>Properties of the frontend handler\<close>

lemma endsWith_both:
  assumes a: "endsWith p a" and b: "endsWith p b" and le: "length a \<le> length b"
  shows "endsWith b a"
proof -
  from a have da: "drop (length p - length a) p = a" by (simp add: endsWith_def)
  from b have db: "drop (length p - length b) p = b" and lb: "length b \<le> length p"
    by (simp_all add: endsWith_def)
  have "drop (length b - length a) b = drop (length b - length a) (drop (length p - length b) p)"
    by (simp only: db)
  also have "\<dots> = drop (length p - length a) p"
    using le lb by simp
  finally have "drop (length b - length a) b = a" by (simp only: da)
  with le show ?thesis by (simp add: endsWith_def)
qed

lemma startsWith_both:
  assumes a: "startsWith s a" and b: "startsWith s b" and le: "length a \<le> length b"
  shows "startsWith b a"
proof -
  from a have ta: "take (length a) s = a" by (simp add: startsWith_def)
  from b have tb: "take (length b) s = b" by (simp add: startsWith_def)
  have "take (length a) b = take (length a) (take (length b) s)" by (simp only: tb)
  also have "\<dots> = take (length a) s" using le by (simp add: min_def)
  finally show ?thesis by (simp add: startsWith_def ta)
qed

text \<open>
  C2. In \<open>serveFile\<close>, for a requested file path that does not exist: when the caller
  asked for the fallback and \<open>index.html\<close> exists in the directory of the requested
  path, the answer is that \<open>index.html\<close> with Content-Type \<open>text/html\<close>; when that
  \<open>index.html\<close> does not exist either, or the fallback was not asked for, the answer is
  status 404 with the text \<open>Not found\<close>.
\<close>

theorem serveFile_missing_file:
  assumes "\<not> fs filePath"
  shows "serveFile mime fs filePath fallbackToIndex =
     (if fallbackToIndex \<and> fs (path_join [path_dirname filePath, ''index.html''])
      then \<lparr>status = 200, contentType = Some ''text/html'',
            body = SendFile (path_join [path_dirname filePath, ''index.html''])\<rparr>
      else \<lparr>status = 404, contentType = None, body = Send ''Not found''\<rparr>)"
  using assms by (simp add: serveFile_def notFound_def Let_def)

text \<open>A request for \<open>/about\<close> in a build that has only \<open>index.html\<close>, with and without fallback.\<close>

theorem serveFile_missing_file_witness:
  "\<not> (\<lambda>p. p = ''/srv/app/user_dist/index.html'') ''/srv/app/user_dist/about'' \<and>
   serveFile (\<lambda>p. None) (\<lambda>p. p = ''/srv/app/user_dist/index.html'') ''/srv/app/user_dist/about'' True =
     \<lparr>status = 200, contentType = Some ''text/html'',
      body = SendFile ''/srv/app/user_dist/index.html''\<rparr> \<and>
   serveFile (\<lambda>p. None) (\<lambda>p. p = ''/srv/app/user_dist/index.html'') ''/srv/app/user_dist/about'' False =
     \<lparr>status = 404, contentType = None, body = Send ''Not found''\<rparr>"
proof -
  let ?fs = "\<lambda>p. p = ''/srv/app/user_dist/index.html''"
  have idx: "path_join [path_dirname ''/srv/app/user_dist/about'', ''index.html''] = ''/srv/app/user_dist/index.html''"
    by code_simp
  show ?thesis
    using serveFile_missing_file [of ?fs "''/srv/app/user_dist/about''" "\<lambda>p. None" True]
          serveFile_missing_file [of ?fs "''/srv/app/user_dist/about''" "\<lambda>p. None" False]
    by (simp add: idx)
qed

lemma endsWith_within:
  assumes a: "endsWith p a" and le: "length b \<le> length a"
  shows "endsWith p b = endsWith a b"
proof -
  from a have da: "drop (length p - length a) p = a" and la: "length a \<le> length p"
    by (simp_all add: endsWith_def)
  have "drop (length a - length b) a = drop (length a - length b) (drop (length p - length a) p)"
    by (simp only: da)
  also have "\<dots> = drop (length p - length b) p"
    using le la by simp
  finally show ?thesis using le la by (simp add: endsWith_def)
qed

lemma mime_css: "endsWith p ''.css'' \<Longrightarrow> getMimeType mime p = ''text/css''"
  by (simp add: getMimeType_def endsWith_within [of p "''.css''"]) (simp add: endsWith_def)

lemma mime_html: "endsWith p ''.html'' \<Longrightarrow> getMimeType mime p = ''text/html''"
  by (simp add: getMimeType_def endsWith_within [of p "''.html''"]) (simp add: endsWith_def)

lemma mime_svg: "endsWith p ''.svg'' \<Longrightarrow> getMimeType mime p = ''image/svg+xml''"
proof -
  assume s: "endsWith p ''.svg''"
  have "\<not> endsWith p ''.html''"
  proof
    assume "endsWith p ''.html''"
    from endsWith_within [OF this, of "''.svg''"] s show False by (simp add: endsWith_def)
  qed
  with s show ?thesis
    by (simp add: getMimeType_def endsWith_within [of p "''.svg''"]) (simp add: endsWith_def)
qed

lemma mime_json: "endsWith p ''.json'' \<Longrightarrow> getMimeType mime p = ''application/json''"
  by (simp add: getMimeType_def endsWith_within [of p "''.json''"]) (simp add: endsWith_def)

text \<open>
  C4. The Content-Type of a served file follows the end of its path: \<open>.js\<close> and
  \<open>.mjs\<close> give \<open>application/javascript\<close>, \<open>.css\<close> gives \<open>text/css\<close>, \<open>.html\<close> gives
  \<open>text/html\<close>, \<open>.svg\<close> gives \<open>image/svg+xml\<close>, \<open>.json\<close> gives \<open>application/json\<close>,
  whatever the generic lookup says; every other path gets what the generic lookup finds,
  and \<open>application/octet-stream\<close> when it finds nothing. A file that exists is sent
  with status 200 and this type.
\<close>

theorem getMimeType_table:
  "(endsWith p ''.js'' \<longrightarrow> getMimeType mime p = ''application/javascript'') \<and>
   (endsWith p ''.mjs'' \<longrightarrow> getMimeType mime p = ''application/javascript'') \<and>
   (endsWith p ''.css'' \<longrightarrow> getMimeType mime p = ''text/css'') \<and>
   (endsWith p ''.html'' \<longrightarrow> getMimeType mime p = ''text/html'') \<and>
   (endsWith p ''.svg'' \<longrightarrow> getMimeType mime p = ''image/svg+xml'') \<and>
   (endsWith p ''.json'' \<longrightarrow> getMimeType mime p = ''application/json'') \<and>
   (\<not> endsWith p ''.js'' \<and> \<not> endsWith p ''.mjs'' \<and> \<not> endsWith p ''.css'' \<and>
    \<not> endsWith p ''.html'' \<and> \<not> endsWith p ''.svg'' \<and> \<not> endsWith p ''.json'' \<longrightarrow>
      getMimeType mime p =
        (case mime p of
           None \<Rightarrow> ''application/octet-stream''
         | Some t \<Rightarrow> if t = [] then ''application/octet-stream'' else t)) \<and>
   (fs p \<longrightarrow>
      serveFile mime fs p fallbackToIndex =
        \<lparr>status = 200, contentType = Some (getMimeType mime p), body = SendFile p\<rparr>)"
proof -
  have js: "endsWith p ''.js'' \<longrightarrow> getMimeType mime p = ''application/javascript''"
    by (simp add: getMimeType_def)
  have mjs: "endsWith p ''.mjs'' \<longrightarrow> getMimeType mime p = ''application/javascript''"
    by (simp add: getMimeType_def)
  have other: "\<not> endsWith p ''.js'' \<and> \<not> endsWith p ''.mjs'' \<and> \<not> endsWith p ''.css'' \<and>
    \<not> endsWith p ''.html'' \<and> \<not> endsWith p ''.svg'' \<and> \<not> endsWith p ''.json'' \<longrightarrow>
      getMimeType mime p =
        (case mime p of
           None \<Rightarrow> ''application/octet-stream''
         | Some t \<Rightarrow> if t = [] then ''application/octet-stream'' else t)"
    by (simp add: getMimeType_def)
  have served: "fs p \<longrightarrow>
      serveFile mime fs p fallbackToIndex =
        \<lparr>status = 200, contentType = Some (getMimeType mime p), body = SendFile p\<rparr>"
    by (simp add: serveFile_def)
  from js mjs other served show ?thesis
    using mime_css [of p mime] mime_html [of p mime] mime_svg [of p mime] mime_json [of p mime]
    by blast
qed

text \<open>One path for each line of the table, under a lookup that knows \<open>.png\<close> only.\<close>

theorem getMimeType_table_witness:
  "getMimeType sampleMime ''/srv/app/user_dist/assets/index-4f2a.js'' = ''application/javascript'' \<and>
   getMimeType sampleMime ''/srv/app/user_dist/assets/chunk.mjs'' = ''application/javascript'' \<and>
   getMimeType sampleMime ''/srv/app/user_dist/assets/index.css'' = ''text/css'' \<and>
   getMimeType sampleMime ''/srv/app/user_dist/index.html'' = ''text/html'' \<and>
   getMimeType sampleMime ''/srv/app/user_dist/assets/logo.svg'' = ''image/svg+xml'' \<and>
   getMimeType sampleMime ''/srv/app/user_dist/manifest.json'' = ''application/json'' \<and>
   getMimeType sampleMime ''/srv/app/user_dist/assets/hero.png'' = ''image/png'' \<and>
   getMimeType sampleMime ''/srv/app/user_dist/assets/font.woff2'' = ''application/octet-stream'' \<and>
   serveFile sampleMime (\<lambda>p. True) ''/srv/app/user_dist/assets/logo.svg'' False =
     \<lparr>status = 200, contentType = Some ''image/svg+xml'',
      body = SendFile ''/srv/app/user_dist/assets/logo.svg''\<rparr>"
proof -
  note t = getMimeType_table [where mime = sampleMime and fs = "\<lambda>p. True" and fallbackToIndex = False]
  have 1: "getMimeType sampleMime ''/srv/app/user_dist/assets/index-4f2a.js'' = ''application/javascript''"
    using t [of "''/srv/app/user_dist/assets/index-4f2a.js''"] by (simp add: endsWith_def)
  have 2: "getMimeType sampleMime ''/srv/app/user_dist/assets/chunk.mjs'' = ''application/javascript''"
    using t [of "''/srv/app/user_dist/assets/chunk.mjs''"] by (simp add: endsWith_def)
  have 3: "getMimeType sampleMime ''/srv/app/user_dist/assets/index.css'' = ''text/css''"
    using t [of "''/srv/app/user_dist/assets/index.css''"] by (simp add: endsWith_def)
  have 4: "getMimeType sampleMime ''/srv/app/user_dist/index.html'' = ''text/html''"
    using t [of "''/srv/app/user_dist/index.html''"] by (simp add: endsWith_def)
  have 5: "getMimeType sampleMime ''/srv/app/user_dist/assets/logo.svg'' = ''image/svg+xml''"
    using t [of "''/srv/app/user_dist/assets/logo.svg''"] by (simp add: endsWith_def)
  have 6: "getMimeType sampleMime ''/srv/app/user_dist/manifest.json'' = ''application/json''"
    using t [of "''/srv/app/user_dist/manifest.json''"] by (simp add: endsWith_def)
  have 7: "getMimeType sampleMime ''/srv/app/user_dist/assets/hero.png'' = ''image/png''"
    using t [of "''/srv/app/user_dist/assets/hero.png''"] by (simp add: endsWith_def sampleMime_def)
  have 8: "getMimeType sampleMime ''/srv/app/user_dist/assets/font.woff2'' = ''application/octet-stream''"
    using t [of "''/srv/app/user_dist/assets/font.woff2''"] by (simp add: endsWith_def sampleMime_def)
  have 9: "serveFile sampleMime (\<lambda>p. True) ''/srv/app/user_dist/assets/logo.svg'' False =
     \<lparr>status = 200, contentType = Some ''image/svg+xml'',
      body = SendFile ''/srv/app/user_dist/assets/logo.svg''\<rparr>"
    using t [of "''/srv/app/user_dist/assets/logo.svg''"] by (simp add: endsWith_def)
  from 1 2 3 4 5 6 7 8 9 show ?thesis by blast
qed

lemma runRoutes_append:
  "runRoutes (rs @ rs') req =
     (case runRoutes rs req of
        Next \<Rightarrow> runRoutes rs' req
      | NextError e \<Rightarrow> NextError e
      | Responded r \<Rightarrow> Responded r)"
  by (induction rs req rule: runRoutes.induct) (auto split: outcome.splits)

lemma star_matches: "routeMatches ''*'' p"
  by (simp add: routeMatches_def startsWith_def)

lemma serveFile_index:
  "fs (path_join [d, ''index.html'']) \<Longrightarrow>
   serveFile mime fs (path_join [d, ''index.html'']) fb =
     \<lparr>status = 200, contentType = Some ''text/html'', body = SendFile (path_join [d, ''index.html''])\<rparr>"
  by (simp add: serveFile_def getMimeType_index)

text \<open>
  C3. The last route: a path beginning with \<open>/api/\<close> gets status 404 with the JSON object
  \<open>{error: "API endpoint not found"}\<close>; otherwise a path beginning with the admin
  prefix gets the admin directory's \<open>index.html\<close> when that exists; otherwise the user
  directory's \<open>index.html\<close> when that exists; otherwise status 404 with plain text. A GET
  request that the four earlier routes all pass on is answered by this route.
\<close>

theorem catchAll_behaviour:
  "catchAllHandler mime fs cfg p =
     (if startsWith p ''/api/'' then
        Responded \<lparr>status = 404, contentType = None,
                   body = Json (JObject [(''error'', JString ''API endpoint not found'')])\<rparr>
      else if startsWith p (adminPathPrefix cfg) \<and> fs (path_join [adminDistFullPath cfg, ''index.html'']) then
        Responded \<lparr>status = 200, contentType = Some ''text/html'',
                   body = SendFile (path_join [adminDistFullPath cfg, ''index.html''])\<rparr>
      else if fs (path_join [userDistFullPath cfg, ''index.html'']) then
        Responded \<lparr>status = 200, contentType = Some ''text/html'',
                   body = SendFile (path_join [userDistFullPath cfg, ''index.html''])\<rparr>
      else Responded \<lparr>status = 404, contentType = None, body = Send ''Not found''\<rparr>) \<and>
   (answersGet (reqVerb req) \<and>
    runRoutes (handleAssets mime fs (adminDistFullPath (resolveOptions cwd options))
                 (adminPathPrefix (resolveOptions cwd options)) @
               handleAssets mime fs (userDistFullPath (resolveOptions cwd options)) []) req = Next \<longrightarrow>
    runRoutes (setupViteFrontends mime fs cwd options) req =
      catchAllHandler mime fs (resolveOptions cwd options) (reqPath req))"
proof -
  have handler: "catchAllHandler mime fs cfg p =
     (if startsWith p ''/api/'' then
        Responded \<lparr>status = 404, contentType = None,
                   body = Json (JObject [(''error'', JString ''API endpoint not found'')])\<rparr>
      else if startsWith p (adminPathPrefix cfg) \<and> fs (path_join [adminDistFullPath cfg, ''index.html'']) then
        Responded \<lparr>status = 200, contentType = Some ''text/html'',
                   body = SendFile (path_join [adminDistFullPath cfg, ''index.html''])\<rparr>
      else if fs (path_join [userDistFullPath cfg, ''index.html'']) then
        Responded \<lparr>status = 200, contentType = Some ''text/html'',
                   body = SendFile (path_join [userDistFullPath cfg, ''index.html''])\<rparr>
      else Responded \<lparr>status = 404, contentType = None, body = Send ''Not found''\<rparr>)"
    by (simp add: catchAllHandler_def apiNotFound_def notFound_def Let_def serveFile_index)
  have last: "answersGet (reqVerb req) \<and>
    runRoutes (handleAssets mime fs (adminDistFullPath (resolveOptions cwd options))
                 (adminPathPrefix (resolveOptions cwd options)) @
               handleAssets mime fs (userDistFullPath (resolveOptions cwd options)) []) req = Next \<longrightarrow>
    runRoutes (setupViteFrontends mime fs cwd options) req =
      catchAllHandler mime fs (resolveOptions cwd options) (reqPath req)"
  proof
    assume h: "answersGet (reqVerb req) \<and>
      runRoutes (handleAssets mime fs (adminDistFullPath (resolveOptions cwd options))
                 (adminPathPrefix (resolveOptions cwd options)) @
               handleAssets mime fs (userDistFullPath (resolveOptions cwd options)) []) req = Next"
    have never_next: "catchAllHandler mime fs (resolveOptions cwd options) (reqPath req) \<noteq> Next"
      by (simp add: catchAllHandler_def Let_def)
    have "runRoutes (setupViteFrontends mime fs cwd options) req =
            runRoutes [(''*'', catchAllHandler mime fs (resolveOptions cwd options))] req"
      using h runRoutes_append [of "handleAssets mime fs (adminDistFullPath (resolveOptions cwd options))
                 (adminPathPrefix (resolveOptions cwd options)) @
               handleAssets mime fs (userDistFullPath (resolveOptions cwd options)) []"
               "[(''*'', catchAllHandler mime fs (resolveOptions cwd options))]" req]
      by (simp add: setupViteFrontends_def Let_def)
    also have "\<dots> = catchAllHandler mime fs (resolveOptions cwd options) (reqPath req)"
      using h never_next by (simp add: star_matches split: outcome.splits)
    finally show "runRoutes (setupViteFrontends mime fs cwd options) req =
      catchAllHandler mime fs (resolveOptions cwd options) (reqPath req)" .
  qed
  from handler last show ?thesis by blast
qed

lemma serverSettings_eval:
  "serverSettings = \<lparr>userDistFullPath = ''/srv/app/user_dist'',
      adminDistFullPath = ''/srv/app/admin_dist'', adminPathPrefix = ''/admin''\<rparr>"
  by code_simp

text \<open>
  \<open>GET /api/unknown\<close> is passed on by the four earlier routes and answered here; an
  admin path is answered with the admin build's \<open>index.html\<close>.
\<close>

theorem catchAll_behaviour_witness:
  "answersGet (reqVerb (getRequest ''/api/unknown'')) \<and>
   runRoutes (handleAssets sampleMime bothBuildsFs (adminDistFullPath serverSettings)
                (adminPathPrefix serverSettings) @
              handleAssets sampleMime bothBuildsFs (userDistFullPath serverSettings) [])
     (getRequest ''/api/unknown'') = Next \<and>
   runRoutes (setupViteFrontends sampleMime bothBuildsFs ''/srv/app'' (Some (serverOptions ''/srv/app'')))
     (getRequest ''/api/unknown'') =
     Responded \<lparr>status = 404, contentType = None,
                body = Json (JObject [(''error'', JString ''API endpoint not found'')])\<rparr> \<and>
   catchAllHandler sampleMime bothBuildsFs serverSettings ''/admin/users/7'' =
     Responded \<lparr>status = 200, contentType = Some ''text/html'',
                body = SendFile ''/srv/app/admin_dist/index.html''\<rparr>"
proof -
  let ?req = "getRequest ''/api/unknown''"
  note t = catchAll_behaviour [of sampleMime bothBuildsFs _ _ ?req "''/srv/app''" "Some (serverOptions ''/srv/app'')",
      folded serverSettings_def]
  have g: "answersGet (reqVerb ?req)"
    by (simp add: getRequest_def answersGet_def)
  have e: "runRoutes (handleAssets sampleMime bothBuildsFs (adminDistFullPath serverSettings)
                (adminPathPrefix serverSettings) @
              handleAssets sampleMime bothBuildsFs (userDistFullPath serverSettings) []) ?req = Next"
    by (simp add: serverSettings_eval handleAssets_def getRequest_def answersGet_def routeMatches_def
        startsWith_def lowerChar_def staticHandler_def)
  have api: "startsWith (reqPath ?req) ''/api/''"
    by (simp add: getRequest_def startsWith_def)
  have r: "runRoutes (setupViteFrontends sampleMime bothBuildsFs ''/srv/app'' (Some (serverOptions ''/srv/app''))) ?req =
     Responded \<lparr>status = 404, contentType = None,
                body = Json (JObject [(''error'', JString ''API endpoint not found'')])\<rparr>"
    using t [of serverSettings "reqPath ?req"] g e api by simp
  have idx: "path_join [''/srv/app/admin_dist'', ''index.html''] = ''/srv/app/admin_dist/index.html''"
    by code_simp
  have a: "catchAllHandler sampleMime bothBuildsFs serverSettings ''/admin/users/7'' =
     Responded \<lparr>status = 200, contentType = Some ''text/html'',
                body = SendFile ''/srv/app/admin_dist/index.html''\<rparr>"
    using t [of serverSettings "''/admin/users/7''"]
    by (simp add: serverSettings_eval idx startsWith_def bothBuildsFs_def)
  from g e r a show ?thesis by blast
qed

lemma startsWith_append: "startsWith s (a @ b) \<Longrightarrow> startsWith s a"
proof -
  assume "startsWith s (a @ b)"
  then have "take (length a + length b) s = a @ b" by (simp add: startsWith_def)
  then have "take (length a) (take (length a + length b) s) = take (length a) (a @ b)" by simp
  then show ?thesis by (simp add: startsWith_def min_def)
qed

lemma routeMatches_star: "routeMatches (lit @ ''*'') p = startsWith (map lowerChar p) (map lowerChar lit)"
  by (simp add: routeMatches_def)

lemma routeMatches_assets_static:
  "routeMatches (pre @ ''/assets/*'') p \<Longrightarrow> routeMatches (pre @ ''/*'') p"
proof -
  assume m: "routeMatches (pre @ ''/assets/*'') p"
  have "routeMatches ((pre @ ''/assets/'') @ ''*'') p" using m by simp
  then have "startsWith (map lowerChar p) (map lowerChar (pre @ ''/'') @ map lowerChar ''assets/'')"
    unfolding routeMatches_star by simp
  then have "startsWith (map lowerChar p) (map lowerChar (pre @ ''/''))"
    by (rule startsWith_append)
  then have "routeMatches ((pre @ ''/'') @ ''*'') p" unfolding routeMatches_star .
  then show ?thesis by simp
qed

lemma user_assets_not_admin:
  assumes "routeMatches ''/assets/*'' p"
  shows "\<not> routeMatches ''/admin/*'' p"
proof
  assume "routeMatches ''/admin/*'' p"
  then have a: "startsWith (map lowerChar p) ''/admin/''"
    using routeMatches_star [of "''/admin/''" p] by (simp add: lowerChar_def)
  from assms have b: "startsWith (map lowerChar p) ''/assets/''"
    using routeMatches_star [of "''/assets/''" p] by (simp add: lowerChar_def)
  from startsWith_both [OF a b] show False by (simp add: startsWith_def)
qed

lemma assetsHandler_missing:
  "\<not> fs (path_join [distPath, ''assets'', substring p (length (urlPrefix @ ''/assets/''))]) \<Longrightarrow>
   assetsHandler mime fs distPath urlPrefix p =
     Responded \<lparr>status = 404, contentType = None, body = Send ''Not found''\<rparr>"
  by (simp add: assetsHandler_def serveFile_def notFound_def Let_def)

text \<open>
  C10. A GET request that matches an assets route never gets the fallback to
  \<open>index.html\<close>: under the admin prefix, and under \<open>/assets/\<close> for the user build (when
  the path is not one of the admin application's, which under the prefix \<open>/admin\<close> it
  never is), a file missing from the build's \<open>assets\<close> directory is answered with
  status 404 and the text \<open>Not found\<close>, whether or not \<open>index.html\<close> exists.
\<close>

theorem assets_routes_no_fallback:
  assumes get: "answersGet (reqVerb req)" and cfg: "cfg = resolveOptions cwd options"
  shows
    "(routeMatches (adminPathPrefix cfg @ ''/assets/*'') (reqPath req) \<and>
      \<not> fs (path_join [adminDistFullPath cfg, ''assets'',
                substring (reqPath req) (length (adminPathPrefix cfg @ ''/assets/''))]) \<longrightarrow>
      runRoutes (setupViteFrontends mime fs cwd options) req =
        Responded \<lparr>status = 404, contentType = None, body = Send ''Not found''\<rparr>) \<and>
     (routeMatches ''/assets/*'' (reqPath req) \<and>
      \<not> routeMatches (adminPathPrefix cfg @ ''/*'') (reqPath req) \<and>
      \<not> fs (path_join [userDistFullPath cfg, ''assets'',
                substring (reqPath req) (length ''/assets/'')]) \<longrightarrow>
      runRoutes (setupViteFrontends mime fs cwd options) req =
        Responded \<lparr>status = 404, contentType = None, body = Send ''Not found''\<rparr>) \<and>
     (adminPathPrefix cfg = ''/admin'' \<and> routeMatches ''/assets/*'' (reqPath req) \<longrightarrow>
      \<not> routeMatches (adminPathPrefix cfg @ ''/*'') (reqPath req))"
proof -
  have admin: "routeMatches (adminPathPrefix cfg @ ''/assets/*'') (reqPath req) \<and>
      \<not> fs (path_join [adminDistFullPath cfg, ''assets'',
                substring (reqPath req) (length (adminPathPrefix cfg @ ''/assets/''))]) \<longrightarrow>
      runRoutes (setupViteFrontends mime fs cwd options) req =
        Responded \<lparr>status = 404, contentType = None, body = Send ''Not found''\<rparr>"
    using get assetsHandler_missing [of fs "adminDistFullPath cfg" "reqPath req" "adminPathPrefix cfg" mime]
    by (simp add: setupViteFrontends_def handleAssets_def Let_def cfg [symmetric])
  have user: "routeMatches ''/assets/*'' (reqPath req) \<and>
      \<not> routeMatches (adminPathPrefix cfg @ ''/*'') (reqPath req) \<and>
      \<not> fs (path_join [userDistFullPath cfg, ''assets'',
                substring (reqPath req) (length ''/assets/'')]) \<longrightarrow>
      runRoutes (setupViteFrontends mime fs cwd options) req =
        Responded \<lparr>status = 404, contentType = None, body = Send ''Not found''\<rparr>"
    using get assetsHandler_missing [of fs "userDistFullPath cfg" "reqPath req" "[]" mime]
      routeMatches_assets_static [of "adminPathPrefix cfg" "reqPath req"]
    by (auto simp add: setupViteFrontends_def handleAssets_def Let_def cfg [symmetric])
  have apart: "adminPathPrefix cfg = ''/admin'' \<and> routeMatches ''/assets/*'' (reqPath req) \<longrightarrow>
      \<not> routeMatches (adminPathPrefix cfg @ ''/*'') (reqPath req)"
    using user_assets_not_admin [of "reqPath req"] by auto
  from admin user apart show ?thesis by blast
qed

text \<open>Both builds have their \<open>index.html\<close>; the assets asked for are in neither.\<close>

theorem assets_routes_no_fallback_witness:
  "answersGet (reqVerb (getRequest ''/admin/assets/missing.js'')) \<and>
   answersGet (reqVerb (getRequest ''/assets/missing.css'')) \<and>
   serverSettings = resolveOptions ''/srv/app'' (Some (serverOptions ''/srv/app'')) \<and>
   bothBuildsFs (path_join [adminDistFullPath serverSettings, ''index.html'']) \<and>
   bothBuildsFs (path_join [userDistFullPath serverSettings, ''index.html'']) \<and>
   routeMatches (adminPathPrefix serverSettings @ ''/assets/*'') (reqPath (getRequest ''/admin/assets/missing.js'')) \<and>
   routeMatches ''/assets/*'' (reqPath (getRequest ''/assets/missing.css'')) \<and>
   runRoutes (setupViteFrontends sampleMime bothBuildsFs ''/srv/app'' (Some (serverOptions ''/srv/app'')))
     (getRequest ''/admin/assets/missing.js'') =
     Responded \<lparr>status = 404, contentType = None, body = Send ''Not found''\<rparr> \<and>
   runRoutes (setupViteFrontends sampleMime bothBuildsFs ''/srv/app'' (Some (serverOptions ''/srv/app'')))
     (getRequest ''/assets/missing.css'') =
     Responded \<lparr>status = 404, contentType = None, body = Send ''Not found''\<rparr>"
proof -
  let ?a = "getRequest ''/admin/assets/missing.js''"
  let ?u = "getRequest ''/assets/missing.css''"
  have ga: "answersGet (reqVerb ?a)" and gu: "answersGet (reqVerb ?u)"
    by (simp_all add: getRequest_def answersGet_def)
  have c: "serverSettings = resolveOptions ''/srv/app'' (Some (serverOptions ''/srv/app''))"
    by (simp add: serverSettings_def)
  have ia: "bothBuildsFs (path_join [adminDistFullPath serverSettings, ''index.html''])"
    unfolding serverSettings_eval by code_simp
  have iu: "bothBuildsFs (path_join [userDistFullPath serverSettings, ''index.html''])"
    unfolding serverSettings_eval by code_simp
  have ma: "routeMatches (adminPathPrefix serverSettings @ ''/assets/*'') (reqPath ?a)"
    unfolding serverSettings_eval by code_simp
  have mu: "routeMatches ''/assets/*'' (reqPath ?u)"
    by code_simp
  have na: "\<not> bothBuildsFs (path_join [adminDistFullPath serverSettings, ''assets'',
                substring (reqPath ?a) (length (adminPathPrefix serverSettings @ ''/assets/''))])"
    unfolding serverSettings_eval by code_simp
  have nu: "\<not> bothBuildsFs (path_join [userDistFullPath serverSettings, ''assets'',
                substring (reqPath ?u) (length ''/assets/'')])"
    unfolding serverSettings_eval by code_simp
  have pa: "adminPathPrefix serverSettings = ''/admin''"
    by (simp add: serverSettings_eval)
  have ra: "runRoutes (setupViteFrontends sampleMime bothBuildsFs ''/srv/app'' (Some (serverOptions ''/srv/app''))) ?a =
     Responded \<lparr>status = 404, contentType = None, body = Send ''Not found''\<rparr>"
    using assets_routes_no_fallback [OF ga c, of bothBuildsFs sampleMime] ma na by blast
  have ru: "runRoutes (setupViteFrontends sampleMime bothBuildsFs ''/srv/app'' (Some (serverOptions ''/srv/app''))) ?u =
     Responded \<lparr>status = 404, contentType = None, body = Send ''Not found''\<rparr>"
    using assets_routes_no_fallback [OF gu c, of bothBuildsFs sampleMime] mu nu pa by blast
  from ga gu c ia iu ma mu ra ru show ?thesis by blast
qed

text \<open>
  C1. The user directory holds \<open>index.html\<close> and nothing else. \<open>GET /\<close> is answered
  with status 200, Content-Type \<open>text/html\<close> and that file; \<open>GET /assets/app.js\<close> is
  answered with status 404 and plain text. \<open>GET /nonexistent/path\<close> is answered with
  status 404 as well: the fallback looks for \<open>index.html\<close> in the directory of the
  requested path, \<open>user_dist/nonexistent\<close>, not in the root of the build.
\<close>

theorem only_index_scenario:
  "frontends mime onlyIndexFs cwd ''/srv/app'' (getRequest ''/'') =
     Responded \<lparr>status = 200, contentType = Some ''text/html'',
                body = SendFile ''/srv/app/user_dist/index.html''\<rparr> \<and>
   frontends mime onlyIndexFs cwd ''/srv/app'' (getRequest ''/nonexistent/path'') =
     Responded \<lparr>status = 404, contentType = None, body = Send ''Not found''\<rparr> \<and>
   frontends mime onlyIndexFs cwd ''/srv/app'' (getRequest ''/assets/app.js'') =
     Responded \<lparr>status = 404, contentType = None, body = Send ''Not found''\<rparr>"
proof -
  note defs = frontends_def setupViteFrontends_def resolveOptions_def serverOptions_def orDefault_def
    handleAssets_def getRequest_def answersGet_def routeMatches_def startsWith_def lowerChar_def
    staticHandler_def assetsHandler_def substring_def endsWith_def path_extname_def path_join_def
    path_normalize_def normalizeString_def norm_step_def path_dirname_def serveFile_def
    getMimeType_def notFound_def onlyIndexFs_def Let_def
  have root: "frontends mime onlyIndexFs cwd ''/srv/app'' (getRequest ''/'') =
     Responded \<lparr>status = 200, contentType = Some ''text/html'',
                body = SendFile ''/srv/app/user_dist/index.html''\<rparr>"
    by (simp add: defs)
  have deep: "frontends mime onlyIndexFs cwd ''/srv/app'' (getRequest ''/nonexistent/path'') =
     Responded \<lparr>status = 404, contentType = None, body = Send ''Not found''\<rparr>"
    by (simp add: defs)
  have asset: "frontends mime onlyIndexFs cwd ''/srv/app'' (getRequest ''/assets/app.js'') =
     Responded \<lparr>status = 404, contentType = None, body = Send ''Not found''\<rparr>"
    by (simp add: defs)
  from root deep asset show ?thesis by blast
qed

section \<open>Properties of the server module\<close>

lemma isDigit_digitChar: "isDigit (digitChar n)"
proof -
  have "n mod 10 < length ''0123456789''" by simp
  then have "''0123456789'' ! (n mod 10) \<in> set ''0123456789''" by (rule nth_mem)
  then show ?thesis by (simp only: isDigit_def digitChar_def)
qed

lemma digitValue_nth: "k < 10 \<Longrightarrow> digitValue (''0123456789'' ! k) = k"
proof -
  assume "k < 10"
  then have "k = 0 \<or> k = 1 \<or> k = 2 \<or> k = 3 \<or> k = 4 \<or> k = 5 \<or> k = 6 \<or> k = 7 \<or> k = 8 \<or> k = 9"
    by arith
  then show ?thesis by (auto simp: digitValue_def)
qed

lemma digitValue_digitChar: "digitValue (digitChar n) = n mod 10"
  by (simp add: digitChar_def digitValue_nth)

lemma two_digits_value:
  "n < 100 \<Longrightarrow> 10 * digitValue (digitChar (n div 10)) + digitValue (digitChar n) = n"
  by (simp add: digitValue_digitChar)

lemma isoMonthToZone_fields:
  assumes "validDate d"
  shows "isoMonthToZone (''-'' @ twoDigits (utcMonth d) @ ''-'' @ twoDigits (utcDay d) @
     ''T'' @ twoDigits (utcHours d) @ '':'' @ twoDigits (utcMinutes d) @ '':'' @
     twoDigits (utcSeconds d) @ ''.'' @ threeDigits (utcMillis d) @ ''Z'')"
proof -
  from assms have m: "utcMonth d < 100" and dd: "utcDay d < 100" and h: "utcHours d < 100"
    and mi: "utcMinutes d < 100" and sec: "utcSeconds d < 100"
    by (simp_all add: validDate_def)
  show ?thesis
    using assms two_digits_value [OF m] two_digits_value [OF dd] two_digits_value [OF h]
      two_digits_value [OF mi] two_digits_value [OF sec]
    by (simp add: isoMonthToZone_def twoDigits_def threeDigits_def twoValue_def
        isDigit_digitChar validDate_def)
qed

lemma isoTimestamp_toISOString: "validDate d \<Longrightarrow> isoTimestamp (toISOString d)"
proof -
  assume v: "validDate d"
  let ?tail = "''-'' @ twoDigits (utcMonth d) @ ''-'' @ twoDigits (utcDay d) @
     ''T'' @ twoDigits (utcHours d) @ '':'' @ twoDigits (utcMinutes d) @ '':'' @
     twoDigits (utcSeconds d) @ ''.'' @ threeDigits (utcMillis d) @ ''Z''"
  have tail: "isoMonthToZone ?tail" using v by (rule isoMonthToZone_fields)
  have len: "length ?tail = 20" by (simp add: twoDigits_def threeDigits_def)
  have split: "toISOString d = yearDigits (utcYear d) @ ?tail" by (simp add: toISOString_def)
  show ?thesis
  proof (cases "0 \<le> utcYear d \<and> utcYear d \<le> 9999")
    case True
    then have y: "yearDigits (utcYear d) = fourDigits (nat (utcYear d))" by (simp add: yearDigits_def)
    have ly: "length (fourDigits (nat (utcYear d))) = 4" by (simp add: fourDigits_def)
    have dy: "list_all isDigit (fourDigits (nat (utcYear d)))"
      by (simp add: fourDigits_def isDigit_digitChar)
    show ?thesis
      unfolding split y isoTimestamp_def using tail len ly dy by simp
  next
    case False
    obtain sg where y: "yearDigits (utcYear d) = sg # sixDigits (nat \<bar>utcYear d\<bar>)" and
      sg: "sg = CHR ''+'' \<or> sg = CHR ''-''"
      using False by (auto simp: yearDigits_def)
    have ly: "length (sixDigits (nat \<bar>utcYear d\<bar>)) = 6" by (simp add: sixDigits_def fourDigits_def)
    have dy: "list_all isDigit (sixDigits (nat \<bar>utcYear d\<bar>))"
      by (simp add: sixDigits_def fourDigits_def isDigit_digitChar)
    show ?thesis
      unfolding split y isoTimestamp_def using tail len ly dy sg by simp
  qed
qed

lemma runLayers_pending:
  "list_all ordinary ls \<Longrightarrow> runLayers (ls @ rest) (Some e) req = runLayers rest (Some e) req"
proof (induction ls)
  case Nil
  show ?case by simp
next
  case (Cons l ls)
  then show ?case by (cases l) (simp_all add: ordinary_def)
qed

lemma runLayers_normal:
  "list_all ordinary ls \<Longrightarrow>
   runLayers (ls @ rest) None req =
     (case runNormal ls req of
        Next \<Rightarrow> runLayers rest None req
      | NextError e \<Rightarrow> runLayers rest (Some e) req
      | Responded r \<Rightarrow> r)"
proof (induction ls)
  case Nil
  show ?case by simp
next
  case (Cons l ls)
  show ?case
  proof (cases l)
    case (Use m h)
    from Cons.prems have ord: "list_all ordinary ls" by simp
    from Cons.IH [OF ord] Use show ?thesis
      by (simp add: runLayers_pending [OF ord] split: outcome.splits)
  next
    case (UseError m h)
    with Cons.prems show ?thesis by (simp add: ordinary_def)
  qed
qed

lemma runNormal_append:
  "runNormal (a @ b) req =
     (case runNormal a req of
        Next \<Rightarrow> runNormal b req
      | NextError e \<Rightarrow> NextError e
      | Responded r \<Rightarrow> Responded r)"
  by (induction a req rule: runNormal.induct) (auto split: outcome.splits)

lemma ordinary_apiChain: "list_all ordinary (apiChain col rt store)"
  by (simp add: apiChain_def securityLayers_def parserLayers_def routerLayers_def ordinary_def)

lemma ordinary_frontendLayers: "list_all ordinary (frontendLayers dep)"
  by (simp add: frontendLayers_def routeLayer_def ordinary_def list_all_iff)

lemma frontendLayers_pending: "runLayers (frontendLayers dep) (Some e) req = defaultErrorPage e"
  using runLayers_pending [OF ordinary_frontendLayers, of dep "[]" e req] by simp

lemma app_cases:
  "app col rt store dep req =
     (case runNormal (apiChain col rt store) req of
        Next \<Rightarrow> runLayers (frontendLayers dep) None req
      | NextError e \<Rightarrow>
          (if atMount ''/api'' req
           then (case apiErrorHandler rt e req of
                   Next \<Rightarrow> runLayers (frontendLayers dep) None req
                 | NextError e' \<Rightarrow> defaultErrorPage e'
                 | Responded r \<Rightarrow> r)
           else defaultErrorPage e)
      | Responded r \<Rightarrow> r)"
proof -
  have "app col rt store dep req =
     (case runNormal (apiChain col rt store) req of
        Next \<Rightarrow> runLayers (UseError (atMount ''/api'') (apiErrorHandler rt) # frontendLayers dep) None req
      | NextError e \<Rightarrow> runLayers (UseError (atMount ''/api'') (apiErrorHandler rt) # frontendLayers dep) (Some e) req
      | Responded r \<Rightarrow> r)"
    using runLayers_normal [OF ordinary_apiChain, of col rt store
        "UseError (atMount ''/api'') (apiErrorHandler rt) # frontendLayers dep" req]
    by (simp add: app_def appLayers_def)
  moreover have "runLayers (UseError (atMount ''/api'') (apiErrorHandler rt) # frontendLayers dep) (Some e) req =
      (if atMount ''/api'' req
       then (case apiErrorHandler rt e req of
               Next \<Rightarrow> runLayers (frontendLayers dep) None req
             | NextError e' \<Rightarrow> defaultErrorPage e'
             | Responded r \<Rightarrow> r)
       else defaultErrorPage e)" for e
    by (simp add: frontendLayers_pending split: outcome.splits)
  ultimately show ?thesis by (simp split: outcome.splits)
qed


lemma apiErrorHandler_thrown:
  assumes "statusInt32 rt (orElse (errStatus err) (JNumber 500)) < 100 \<or>
           999 < statusInt32 rt (orElse (errStatus err) (JNumber 500))"
  shows "apiErrorHandler rt err req =
     NextError ((statusCodeError rt (orElse (errStatus err) (JNumber 500)))\<lparr>errStatus := None\<rparr>)"
  using assms by (auto simp: apiErrorHandler_def resStatusJson_def Let_def)




lemma rateLimit_outcome:
  "snd (rateLimit opts store t req) = Next \<or>
   snd (rateLimit opts store t req) = Responded (tooManyRequests opts)"
  by (simp add: rateLimit_def Let_def)

lemma rateLimit_other:
  "reqClient req \<noteq> c \<Longrightarrow> fst (rateLimit opts store t req) c = store c"
  by (simp add: rateLimit_def Let_def)

lemma rateLimit_same_open:
  assumes "store (reqClient req) = Some (h, reset)" and "t < reset"
  shows "fst (rateLimit opts store t req) (reqClient req) = Some (Suc h, reset)"
    and "snd (rateLimit opts store t req) =
           (if maxLimit opts < Suc h then Responded (tooManyRequests opts) else Next)"
  using assms by (simp_all add: rateLimit_def Let_def)

lemma rateLimit_new_window:
  assumes "\<forall>h reset. store (reqClient req) = Some (h, reset) \<longrightarrow> reset \<le> t"
  shows "fst (rateLimit opts store t req) (reqClient req) = Some (1, t + windowMs opts)"
    and "snd (rateLimit opts store t req) =
           (if maxLimit opts < 1 then Responded (tooManyRequests opts) else Next)"
  using assms by (auto simp: rateLimit_def Let_def split: option.splits)

lemma hitsOf_Cons:
  "hitsOf c (tr # reqs) = (if reqClient (snd tr) = c then Suc (hitsOf c reqs) else hitsOf c reqs)"
  by (simp add: hitsOf_def)

lemma limitAll_length: "length (limitAll opts store reqs) = length reqs"
  by (induction reqs arbitrary: store) auto

lemma limitAll_counts:
  assumes "store c = Some (h, reset)"
    and "\<forall>tr \<in> set reqs. reqClient (snd tr) = c \<longrightarrow> fst tr < reset"
    and "i < length reqs"
    and "reqClient (snd (reqs ! i)) = c"
  shows "limitAll opts store reqs ! i =
           (if maxLimit opts < h + hitsOf c (take (Suc i) reqs)
            then Responded (tooManyRequests opts) else Next)"
  using assms
proof (induction reqs arbitrary: store h i)
  case Nil
  then show ?case by simp
next
  case (Cons tr reqs)
  obtain t req where tr: "tr = (t, req)" by (cases tr)
  show ?case
  proof (cases "reqClient req = c")
    case True
    from Cons.prems(2) tr True have open_window: "t < reset" by simp
    from Cons.prems(1) True have st: "store (reqClient req) = Some (h, reset)" by simp
    note step = rateLimit_same_open [where store = store and req = req and opts = opts, OF st open_window]
    show ?thesis
    proof (cases i)
      case 0
      with tr True step(2) show ?thesis by (simp add: hitsOf_Cons hitsOf_def)
    next
      case (Suc j)
      from step(1) True have st': "fst (rateLimit opts store t req) c = Some (Suc h, reset)" by simp
      from Cons.prems(2) have w: "\<forall>tr \<in> set reqs. reqClient (snd tr) = c \<longrightarrow> fst tr < reset" by simp
      from Cons.prems(3) Suc have j: "j < length reqs" by simp
      from Cons.prems(4) Suc have cj: "reqClient (snd (reqs ! j)) = c" by simp
      from Cons.IH [where store = "fst (rateLimit opts store t req)", OF st' w j cj] tr True Suc show ?thesis
        by (simp add: hitsOf_Cons)
    qed
  next
    case False
    then have st': "fst (rateLimit opts store t req) c = Some (h, reset)"
      using Cons.prems(1) by (simp add: rateLimit_other)
    from Cons.prems(4) tr False obtain j where Suc: "i = Suc j" by (cases i) auto
    from Cons.prems(2) have w: "\<forall>tr \<in> set reqs. reqClient (snd tr) = c \<longrightarrow> fst tr < reset" by simp
    from Cons.prems(3) Suc have j: "j < length reqs" by simp
    from Cons.prems(4) Suc have cj: "reqClient (snd (reqs ! j)) = c" by simp
    from Cons.IH [where store = "fst (rateLimit opts store t req)", OF st' w j cj] tr False Suc show ?thesis
      by (simp add: hitsOf_Cons)
  qed
qed

lemma limitAll_window:
  assumes first: "reqClient r0 = c"
    and fresh: "\<forall>h reset. store c = Some (h, reset) \<longrightarrow> reset \<le> t0"
    and window: "\<forall>tr \<in> set rest. reqClient (snd tr) = c \<longrightarrow> fst tr < t0 + windowMs opts"
    and i: "i < Suc (length rest)"
    and mine: "reqClient (snd (((t0, r0) # rest) ! i)) = c"
  shows "limitAll opts store ((t0, r0) # rest) ! i =
           (if maxLimit opts < hitsOf c (take (Suc i) ((t0, r0) # rest))
            then Responded (tooManyRequests opts) else Next)"
proof -
  from fresh first have f: "\<forall>h reset. store (reqClient r0) = Some (h, reset) \<longrightarrow> reset \<le> t0" by simp
  note step = rateLimit_new_window [where store = store and req = r0 and opts = opts, OF f]
  show ?thesis
  proof (cases i)
    case 0
    with step(2) first show ?thesis by (simp add: hitsOf_def)
  next
    case (Suc j)
    from step(1) first have st': "fst (rateLimit opts store t0 r0) c = Some (1, t0 + windowMs opts)" by simp
    from i Suc have j: "j < length rest" by simp
    from mine Suc have cj: "reqClient (snd (rest ! j)) = c" by simp
    from limitAll_counts [where store = "fst (rateLimit opts store t0 r0)" and opts = opts, OF st' window j cj] first Suc show ?thesis
      by (simp add: hitsOf_Cons)
  qed
qed

text \<open>
  C6 (as amended). The handler of \<open>GET /api/status\<close> answers with status 200 and a JSON
  object whose \<open>status\<close> is \<open>OK\<close> and whose \<open>time\<close> is the ISO-8601 timestamp of the
  clock; a GET request for \<open>/api/status\<close> that the layers registered before the route
  (rate limiter, body parsers, statistics, CORS, routers) all pass on gets this answer.
\<close>

theorem status_route:
  "statusOf (statusHandler rt req) = Some 200 \<and>
   jsonField (statusHandler rt req) ''status'' = Some (JString ''OK'') \<and>
   jsonField (statusHandler rt req) ''time'' = Some (JString (toISOString (newDate rt))) \<and>
   (validDate (newDate rt) \<longrightarrow> isoTimestamp (toISOString (newDate rt))) \<and>
   (onGet ''/api/status'' req \<and>
    runNormal (securityLayers store rt @ parserLayers @ routerLayers col) req = Next \<longrightarrow>
      Responded (app col rt store dep req) = statusHandler rt req)"
proof -
  have fields:
    "statusOf (statusHandler rt req) = Some 200"
    "jsonField (statusHandler rt req) ''status'' = Some (JString ''OK'')"
    "jsonField (statusHandler rt req) ''time'' = Some (JString (toISOString (newDate rt)))"
    by (simp_all add: statusHandler_def statusOf_def jsonField_def)
  have iso: "validDate (newDate rt) \<longrightarrow> isoTimestamp (toISOString (newDate rt))"
    by (simp add: isoTimestamp_toISOString)
  have reached: "onGet ''/api/status'' req \<and>
    runNormal (securityLayers store rt @ parserLayers @ routerLayers col) req = Next \<longrightarrow>
      Responded (app col rt store dep req) = statusHandler rt req"
  proof
    assume h: "onGet ''/api/status'' req \<and>
      runNormal (securityLayers store rt @ parserLayers @ routerLayers col) req = Next"
    have "runNormal (apiChain col rt store) req = statusHandler rt req"
      using h runNormal_append [of "securityLayers store rt @ parserLayers @ routerLayers col"
          "[Use (onGet ''/api/status'') (statusHandler rt)]" req]
      by (simp add: apiChain_def statusHandler_def)
    then show "Responded (app col rt store dep req) = statusHandler rt req"
      by (simp add: app_cases statusHandler_def)
  qed
  show ?thesis by (intro conjI fields iso reached)
qed

text \<open>The first request of a client, with collaborators that pass everything on.\<close>

theorem status_route_witness:
  "validDate (newDate (sampleRuntime None)) \<and>
   isoTimestamp ''2024-03-09T14:05:07.042Z'' \<and>
   onGet ''/api/status'' (getRequest ''/api/status'') \<and>
   runNormal (securityLayers Map.empty (sampleRuntime None) @ parserLayers @
              routerLayers quietCollaborators) (getRequest ''/api/status'') = Next \<and>
   app quietCollaborators (sampleRuntime None) Map.empty sampleDeployment (getRequest ''/api/status'') =
     \<lparr>status = 200, contentType = None,
      body = Json (JObject [(''status'', JString ''OK''),
                            (''time'', JString ''2024-03-09T14:05:07.042Z'')])\<rparr>"
proof -
  let ?rt = "sampleRuntime None"
  let ?req = "getRequest ''/api/status''"
  note t = status_route [of ?rt ?req Map.empty quietCollaborators sampleDeployment]
  have v: "validDate (newDate ?rt)"
    by (simp add: sampleRuntime_def sampleDate_def validDate_def)
  have s: "toISOString (newDate ?rt) = ''2024-03-09T14:05:07.042Z''"
    by (simp add: sampleRuntime_def toISOString_def sampleDate_def yearDigits_def fourDigits_def
        twoDigits_def threeDigits_def digitChar_def)
  have i: "isoTimestamp ''2024-03-09T14:05:07.042Z''"
    using t v s by simp
  have g: "onGet ''/api/status'' ?req"
    by (simp add: onGet_def getRequest_def answersGet_def routeMatches_def lowerChar_def)
  have n: "runNormal (securityLayers Map.empty ?rt @ parserLayers @ routerLayers quietCollaborators) ?req = Next"
    by (simp add: securityLayers_def parserLayers_def routerLayers_def quietCollaborators_def
        atMount_def mountMatches_def getRequest_def startsWith_def lowerChar_def rateLimit_def
        limiter_def helmet_def compression_def always_def express_json_def express_urlencoded_def
        bodyParser_def)
  have h: "statusHandler ?rt ?req = Responded
     \<lparr>status = 200, contentType = None,
      body = Json (JObject [(''status'', JString ''OK''),
                            (''time'', JString ''2024-03-09T14:05:07.042Z'')])\<rparr>"
    by (simp add: statusHandler_def s)
  have a: "app quietCollaborators ?rt Map.empty sampleDeployment ?req =
     \<lparr>status = 200, contentType = None,
      body = Json (JObject [(''status'', JString ''OK''),
                            (''time'', JString ''2024-03-09T14:05:07.042Z'')])\<rparr>"
    using t g n h by simp
  show ?thesis by (intro conjI v i g n a)
qed

text \<open>
  The sample client has made 500 requests in the running window; its next
  \<open>GET /api/status\<close> is answered by the rate limiter with status 429.
\<close>

theorem status_route_counterexample:
  "onGet ''/api/status'' (getRequest ''/api/status'') \<and>
   app quietCollaborators (sampleRuntime None) busyStore sampleDeployment (getRequest ''/api/status'') =
     \<lparr>status = 429, contentType = None,
      body = Json (JObject [(''success'', JBool False),
                            (''message'', JString ''Too many requests, please try again later.'')])\<rparr>"
proof -
  let ?req = "getRequest ''/api/status''"
  have g: "onGet ''/api/status'' ?req"
    by (simp add: onGet_def getRequest_def answersGet_def routeMatches_def lowerChar_def)
  have "runNormal (apiChain quietCollaborators (sampleRuntime None) busyStore) ?req =
      Responded (tooManyRequests limiter)"
    by (simp add: apiChain_def securityLayers_def atMount_def mountMatches_def getRequest_def
        startsWith_def lowerChar_def rateLimit_def limiter_def busyStore_def sampleRuntime_def
        tooManyRequests_def)
  then have "app quietCollaborators (sampleRuntime None) busyStore sampleDeployment ?req =
      tooManyRequests limiter"
    by (simp add: app_cases)
  with g show ?thesis by (simp add: tooManyRequests_def limiter_def)
qed

lemma atMount_api:
  "atMount ''/api'' req =
     (map lowerChar (reqPath req) = ''/api'' \<or> startsWith (map lowerChar (reqPath req)) ''/api/'')"
  by (simp add: atMount_def mountMatches_def lowerChar_def)

lemma securityLayers_elsewhere:
  "\<not> atMount ''/api'' req \<Longrightarrow> runNormal (securityLayers store rt @ ls) req = runNormal ls req"
  by (simp add: securityLayers_def compression_def always_def)

lemma securityLayers_limited:
  "atMount ''/api'' req \<Longrightarrow>
   runNormal (securityLayers store rt @ ls) req =
     (case snd (rateLimit limiter store (dateNow rt) req) of
        Next \<Rightarrow> runNormal ls req
      | NextError e \<Rightarrow> NextError e
      | Responded r \<Rightarrow> Responded r)"
  by (simp add: securityLayers_def compression_def helmet_def always_def split: outcome.splits)

text \<open>
  C7. The limiter is configured with a window of 15 minutes and a maximum of 500. It
  is consulted exactly for the paths under the mount point \<open>/api\<close> (the path \<open>/api\<close>
  itself and every path beginning with \<open>/api/\<close>, letters compared without regard to
  case): a request elsewhere is answered the same whatever the store holds, and a request
  under \<open>/api\<close> that the limiter refuses gets the limiter's answer. Of the requests that
  one client makes within the window opened by its first request, the first 500 are passed
  on and every further one is answered with status 429 and the JSON object
  \<open>{success: false, message: "Too many requests, please try again later."}\<close>. The
  headers set are the standard \<open>RateLimit-*\<close> ones and none of the \<open>X-RateLimit-*\<close> ones.
\<close>

theorem rate_limit:
  assumes first: "reqClient r0 = c"
    and fresh: "\<forall>h reset. store c = Some (h, reset) \<longrightarrow> reset \<le> t0"
    and window: "\<forall>tr \<in> set rest. reqClient (snd tr) = c \<longrightarrow> fst tr < t0 + windowMs limiter"
    and i: "i < Suc (length rest)"
    and mine: "reqClient (snd (((t0, r0) # rest) ! i)) = c"
  shows
    "windowMs limiter = 15 * 60 * 1000 \<and> maxLimit limiter = 500 \<and>
     limitAll limiter store ((t0, r0) # rest) ! i =
       (if hitsOf c (take (Suc i) ((t0, r0) # rest)) \<le> 500 then Next
        else Responded
               \<lparr>status = 429, contentType = None,
                body = Json (JObject
                  [(''success'', JBool False),
                   (''message'', JString ''Too many requests, please try again later.'')])\<rparr>) \<and>
     rateLimitHeaders limiter = [''RateLimit-Limit'', ''RateLimit-Remaining'', ''RateLimit-Reset''] \<and>
     list_all (\<lambda>h. \<not> startsWith h ''X-RateLimit-'') (rateLimitHeaders limiter) \<and>
     atMount ''/api'' req =
       (map lowerChar (reqPath req) = ''/api'' \<or> startsWith (map lowerChar (reqPath req)) ''/api/'') \<and>
     (\<not> atMount ''/api'' req \<longrightarrow> app col rt store' dep req = app col rt store'' dep req) \<and>
     (atMount ''/api'' req \<and> snd (rateLimit limiter store' (dateNow rt) req) = Responded resp \<longrightarrow>
        app col rt store' dep req = resp)"
proof -
  have config: "windowMs limiter = 15 * 60 * 1000" "maxLimit limiter = 500"
    by (simp_all add: limiter_def)
  have counting: "limitAll limiter store ((t0, r0) # rest) ! i =
       (if hitsOf c (take (Suc i) ((t0, r0) # rest)) \<le> 500 then Next
        else Responded
               \<lparr>status = 429, contentType = None,
                body = Json (JObject
                  [(''success'', JBool False),
                   (''message'', JString ''Too many requests, please try again later.'')])\<rparr>)"
    using limitAll_window [where store = store and opts = limiter, OF first fresh window i mine]
    by (simp add: tooManyRequests_def limiter_def not_less)
  have headers: "rateLimitHeaders limiter = [''RateLimit-Limit'', ''RateLimit-Remaining'', ''RateLimit-Reset'']"
    by (simp add: rateLimitHeaders_def limiter_def)
  have no_legacy: "list_all (\<lambda>h. \<not> startsWith h ''X-RateLimit-'') (rateLimitHeaders limiter)"
    by (simp add: headers startsWith_def)
  have elsewhere: "\<not> atMount ''/api'' req \<longrightarrow> app col rt store' dep req = app col rt store'' dep req"
    by (simp add: app_cases apiChain_def securityLayers_elsewhere)
  have refused: "atMount ''/api'' req \<and> snd (rateLimit limiter store' (dateNow rt) req) = Responded resp \<longrightarrow>
        app col rt store' dep req = resp"
    by (simp add: app_cases apiChain_def securityLayers_limited)
  show ?thesis by (intro conjI config counting headers no_legacy atMount_api elsewhere refused)
qed

lemma hitsOf_burst:
  "n \<le> 600 \<Longrightarrow> hitsOf ''203.0.113.7'' (take (Suc n) burst) = Suc n"
  by (simp add: burst_def hitsOf_def getRequest_def min_def)

lemma burst_nth: "n \<le> 600 \<Longrightarrow> reqClient (snd (burst ! n)) = ''203.0.113.7''"
  by (cases n) (simp_all add: burst_def getRequest_def)

text \<open>
  A client's burst of 601 requests within five minutes: the 500th is passed on, the 501st
  and the last are refused; a request for \<open>/\<close> is answered the same with an empty store
  and with a store in which the client is over the limit.
\<close>

theorem rate_limit_witness:
  "limitAll limiter Map.empty burst ! 499 = Next \<and>
   limitAll limiter Map.empty burst ! 500 =
     Responded
       \<lparr>status = 429, contentType = None,
        body = Json (JObject
          [(''success'', JBool False),
           (''message'', JString ''Too many requests, please try again later.'')])\<rparr> \<and>
   limitAll limiter Map.empty burst ! 600 =
     Responded
       \<lparr>status = 429, contentType = None,
        body = Json (JObject
          [(''success'', JBool False),
           (''message'', JString ''Too many requests, please try again later.'')])\<rparr> \<and>
   \<not> atMount ''/api'' (getRequest ''/'') \<and>
   app quietCollaborators (sampleRuntime None) busyStore sampleDeployment (getRequest ''/'') =
     app quietCollaborators (sampleRuntime None) Map.empty sampleDeployment (getRequest ''/'') \<and>
   atMount ''/api'' (getRequest ''/api/products'') \<and>
   app quietCollaborators (sampleRuntime None) busyStore sampleDeployment (getRequest ''/api/products'') =
     tooManyRequests limiter"
proof -
  let ?c = "''203.0.113.7''"
  let ?r0 = "getRequest ''/api/products''"
  let ?rest = "replicate 600 (1710000300000 :: nat, getRequest ''/api/products'')"
  let ?rt = "sampleRuntime None"
  have b: "burst = (1710000000000, ?r0) # ?rest" by (simp add: burst_def)
  have first: "reqClient ?r0 = ?c" by (simp add: getRequest_def)
  have fresh: "\<forall>h reset. Map.empty ?c = Some (h, reset) \<longrightarrow> reset \<le> (1710000000000 :: nat)" by simp
  have window: "\<forall>tr \<in> set ?rest. reqClient (snd tr) = ?c \<longrightarrow> fst tr < 1710000000000 + windowMs limiter"
    by (simp add: limiter_def)
  have mine: "reqClient (snd (((1710000000000, ?r0) # ?rest) ! n)) = ?c" if "n \<le> 600" for n
    using burst_nth [OF that] by (simp add: b)
  have hits: "hitsOf ?c (take (Suc n) ((1710000000000, ?r0) # ?rest)) = Suc n" if "n \<le> 600" for n
    using hitsOf_burst [OF that] by (simp add: b)
  note t = rate_limit [where store = Map.empty and rt = ?rt and col = quietCollaborators
      and dep = sampleDeployment and store' = busyStore, OF first fresh window]
  have a: "limitAll limiter Map.empty burst ! 499 = Next"
    using t [of 499, OF _ mine] hits [of 499] by (simp add: b)
  have r: "limitAll limiter Map.empty burst ! 500 =
     Responded
       \<lparr>status = 429, contentType = None,
        body = Json (JObject
          [(''success'', JBool False),
           (''message'', JString ''Too many requests, please try again later.'')])\<rparr>"
    using t [of 500, OF _ mine] hits [of 500] by (simp add: b)
  have l: "limitAll limiter Map.empty burst ! 600 =
     Responded
       \<lparr>status = 429, contentType = None,
        body = Json (JObject
          [(''success'', JBool False),
           (''message'', JString ''Too many requests, please try again later.'')])\<rparr>"
    using t [of 600, OF _ mine] hits [of 600] by (simp add: b)
  have n: "\<not> atMount ''/api'' (getRequest ''/'')"
    by (simp add: atMount_def mountMatches_def getRequest_def startsWith_def lowerChar_def)
  have e: "app quietCollaborators ?rt busyStore sampleDeployment (getRequest ''/'') =
     app quietCollaborators ?rt Map.empty sampleDeployment (getRequest ''/'')"
    using t [of 0 "getRequest ''/''" Map.empty, OF _ mine] n by simp
  have m: "atMount ''/api'' (getRequest ''/api/products'')"
    by (simp add: atMount_def mountMatches_def getRequest_def startsWith_def lowerChar_def)
  have blocked: "snd (rateLimit limiter busyStore (dateNow ?rt) (getRequest ''/api/products'')) =
      Responded (tooManyRequests limiter)"
    by (simp add: rateLimit_def busyStore_def getRequest_def sampleRuntime_def limiter_def)
  have x: "app quietCollaborators ?rt busyStore sampleDeployment (getRequest ''/api/products'') =
     tooManyRequests limiter"
    using t [of 0 "getRequest ''/api/products''" _ "tooManyRequests limiter", OF _ mine] m blocked by simp
  show ?thesis by (intro conjI a r l n e m x)
qed

text \<open>
  C8. The JSON and the URL-encoded parser are given the limit \<open>50mb\<close>, which is
  \<open>50 * 1024 * 1024\<close> bytes. A request whose body is of one of these two kinds and
  longer than that never gets past the parsers: the layers up to them end with the
  rate limiter's refusal or with the error of status 413; the answer has a 4xx status
  and is the same whatever the statistics middleware, CORS and the routers would do.
\<close>

theorem body_limit:
  assumes kind: "reqContentType req = Some ''application/json'' \<or>
                 reqContentType req = Some ''application/x-www-form-urlencoded''"
    and big: "50 * 1024 * 1024 < reqBodyLength req"
  shows
    "bytesParse ''50mb'' = Some (50 * 1024 * 1024) \<and>
     runNormal (securityLayers store rt @ parserLayers) req =
       (if atMount ''/api'' req \<and> snd (rateLimit limiter store (dateNow rt) req) \<noteq> Next
        then Responded (tooManyRequests limiter)
        else NextError payloadTooLarge) \<and>
     errStatus payloadTooLarge = Some (JNumber 413) \<and>
     400 \<le> status (app col rt store dep req) \<and> status (app col rt store dep req) < 500 \<and>
     app col rt store dep req = app col' rt store dep req"
proof -
  have lim: "bytesParse ''50mb'' = Some (50 * 1024 * 1024)"
    by (simp add: bytesParse_def isDigit_def decimal_def digitValue_def unitFactor_def lowerChar_def)
  have parsers: "runNormal parserLayers req = NextError payloadTooLarge"
    using kind big
    by (auto simp: parserLayers_def always_def express_json_def express_urlencoded_def
        bodyParser_def lim)
  have stopped: "runNormal (securityLayers store rt @ parserLayers) req =
       (if atMount ''/api'' req \<and> snd (rateLimit limiter store (dateNow rt) req) \<noteq> Next
        then Responded (tooManyRequests limiter)
        else NextError payloadTooLarge)"
  proof (cases "atMount ''/api'' req")
    case True
    then show ?thesis
      using rateLimit_outcome [of limiter store "dateNow rt" req] parsers
      by (auto simp: securityLayers_limited)
  next
    case False
    then show ?thesis using parsers by (simp add: securityLayers_elsewhere)
  qed
  have chain: "runNormal (apiChain k rt store) req =
       (if atMount ''/api'' req \<and> snd (rateLimit limiter store (dateNow rt) req) \<noteq> Next
        then Responded (tooManyRequests limiter)
        else NextError payloadTooLarge)" for k
    using runNormal_append [of "securityLayers store rt @ parserLayers"
        "routerLayers k @ [Use (onGet ''/api/status'') (statusHandler rt)]" req] stopped
    by (simp add: apiChain_def)
  have code: "errStatus payloadTooLarge = Some (JNumber 413)" by (simp add: payloadTooLarge_def)
  have sent: "\<exists>obj. apiErrorHandler rt payloadTooLarge req =
      Responded \<lparr>status = 413, contentType = None, body = Json obj\<rparr>"
    by (simp add: apiErrorHandler_def resStatusJson_def statusInt32_def int32_def orElse_def
        truthy_def payloadTooLarge_def Let_def)
  then obtain obj where obj: "apiErrorHandler rt payloadTooLarge req =
      Responded \<lparr>status = 413, contentType = None, body = Json obj\<rparr>" by blast
  have answer: "app k rt store dep req =
       (if atMount ''/api'' req \<and> snd (rateLimit limiter store (dateNow rt) req) \<noteq> Next
        then tooManyRequests limiter
        else if atMount ''/api'' req
          then \<lparr>status = 413, contentType = None, body = Json obj\<rparr>
          else defaultErrorPage payloadTooLarge)" for k
    by (simp add: app_cases chain obj)
  have st: "400 \<le> status (app col rt store dep req) \<and> status (app col rt store dep req) < 500"
    by (simp add: answer tooManyRequests_def defaultErrorPage_def payloadTooLarge_def)
  have same: "app col rt store dep req = app col' rt store dep req"
    by (simp add: answer)
  from lim stopped code st same show ?thesis by blast
qed

text \<open>
  A JSON body one byte over the limit, posted to an API route and to a page: status 413
  from the error handler of \<open>/api\<close>, and 413 from Express itself.
\<close>

theorem body_limit_witness:
  "reqContentType (postJson ''/api/products/add'' 52428801) = Some ''application/json'' \<and>
   50 * 1024 * 1024 < reqBodyLength (postJson ''/api/products/add'' 52428801) \<and>
   app failingCollaborators (sampleRuntime None) Map.empty sampleDeployment
     (postJson ''/api/products/add'' 52428801) =
     \<lparr>status = 413, contentType = None,
      body = Json (JObject
        [(''success'', JBool False),
         (''message'', JString ''request entity too large''),
         (''statusCode'', JNumber 413),
         (''timestamp'', JString ''2024-03-09T14:05:07.042Z'')])\<rparr> \<and>
   app quietCollaborators (sampleRuntime None) Map.empty sampleDeployment
     (postJson ''/api/products/add'' 52428801) =
   app failingCollaborators (sampleRuntime None) Map.empty sampleDeployment
     (postJson ''/api/products/add'' 52428801) \<and>
   app quietCollaborators (sampleRuntime None) Map.empty sampleDeployment
     (postJson ''/contact'' 52428801) =
     \<lparr>status = 413, contentType = None, body = DefaultPage\<rparr>"
proof -
  let ?rt = "sampleRuntime None"
  let ?a = "postJson ''/api/products/add'' 52428801"
  let ?p = "postJson ''/contact'' 52428801"
  have ka: "reqContentType ?a = Some ''application/json'' \<or>
            reqContentType ?a = Some ''application/x-www-form-urlencoded''"
    and kp: "reqContentType ?p = Some ''application/json'' \<or>
            reqContentType ?p = Some ''application/x-www-form-urlencoded''"
    by (simp_all add: postJson_def)
  have ba: "50 * 1024 * 1024 < reqBodyLength ?a" and bp: "50 * 1024 * 1024 < reqBodyLength ?p"
    by (simp_all add: postJson_def)
  have ma: "atMount ''/api'' ?a"
    by (simp add: atMount_def mountMatches_def postJson_def startsWith_def lowerChar_def)
  have mp: "\<not> atMount ''/api'' ?p"
    by (simp add: atMount_def mountMatches_def postJson_def startsWith_def lowerChar_def)
  have la: "snd (rateLimit limiter Map.empty (dateNow ?rt) ?a) = Next"
    by (simp add: rateLimit_def limiter_def)
  note ta = body_limit [OF ka ba, of Map.empty ?rt]
  note tp = body_limit [OF kp bp, of Map.empty ?rt]
  have ca: "runNormal (apiChain failingCollaborators ?rt Map.empty) ?a = NextError payloadTooLarge"
    using ta ma la
      runNormal_append [of "securityLayers Map.empty ?rt @ parserLayers"
        "routerLayers failingCollaborators @ [Use (onGet ''/api/status'') (statusHandler ?rt)]" ?a]
    by (simp add: apiChain_def)
  have cp: "runNormal (apiChain quietCollaborators ?rt Map.empty) ?p = NextError payloadTooLarge"
    using tp mp
      runNormal_append [of "securityLayers Map.empty ?rt @ parserLayers"
        "routerLayers quietCollaborators @ [Use (onGet ''/api/status'') (statusHandler ?rt)]" ?p]
    by (simp add: apiChain_def)
  have ha: "apiErrorHandler ?rt payloadTooLarge ?a = Responded
     \<lparr>status = 413, contentType = None,
      body = Json (JObject
        [(''success'', JBool False),
         (''message'', JString ''request entity too large''),
         (''statusCode'', JNumber 413),
         (''timestamp'', JString ''2024-03-09T14:05:07.042Z'')])\<rparr>"
    by (simp add: apiErrorHandler_def resStatusJson_def statusInt32_def int32_def orElse_def
        truthy_def sampleRuntime_def payloadTooLarge_def toISOString_def sampleDate_def
        yearDigits_def fourDigits_def twoDigits_def threeDigits_def digitChar_def Let_def)
  have ra: "app failingCollaborators ?rt Map.empty sampleDeployment ?a =
     \<lparr>status = 413, contentType = None,
      body = Json (JObject
        [(''success'', JBool False),
         (''message'', JString ''request entity too large''),
         (''statusCode'', JNumber 413),
         (''timestamp'', JString ''2024-03-09T14:05:07.042Z'')])\<rparr>"
    using ca ma ha by (simp add: app_cases)
  have sa: "app quietCollaborators ?rt Map.empty sampleDeployment ?a =
            app failingCollaborators ?rt Map.empty sampleDeployment ?a"
    using ta [of quietCollaborators sampleDeployment failingCollaborators] by blast
  have rp: "app quietCollaborators ?rt Map.empty sampleDeployment ?p =
     \<lparr>status = 413, contentType = None, body = DefaultPage\<rparr>"
    using cp mp by (simp add: app_cases defaultErrorPage_def payloadTooLarge_def)
  from ka have ka': "reqContentType ?a = Some ''application/json''" by (simp add: postJson_def)
  show ?thesis by (intro conjI ka' ba ra sa rp)
qed

lemma runEvents_exited: "exitCode p \<noteq> None \<Longrightarrow> runEvents p evs = p"
proof (induction evs arbitrary: p)
  case Nil
  show ?case by (simp add: runEvents_def)
next
  case (Cons ev evs)
  from Cons.prems have "processStep p ev = p" by (simp add: processStep_def)
  with Cons show ?case by (simp add: runEvents_def)
qed

text \<open>
  C9. An unhandled promise rejection in the running process makes the handler write the
  shutdown line and the error to the console and leave the process with exit code 1. The
  requests in flight are left as they are, none of them is answered, and nothing that
  happens afterwards changes anything: the process has ended.
\<close>

theorem unhandled_rejection_exits:
  assumes running: "exitCode p = None"
  shows
    "exitCode (processStep p (UnhandledRejection err)) = Some 1 \<and>
     console (processStep p (UnhandledRejection err)) =
       console p @ [ConsoleLog shutdownMessage, ConsoleError err] \<and>
     inFlight (processStep p (UnhandledRejection err)) = inFlight p \<and>
     answered (processStep p (UnhandledRejection err)) = answered p \<and>
     runEvents (processStep p (UnhandledRejection err)) evs =
       processStep p (UnhandledRejection err)"
proof -
  let ?q = "processStep p (UnhandledRejection err)"
  from running have q: "?q = onUnhandledRejection err p" by (simp add: processStep_def)
  have code: "exitCode ?q = Some 1" by (simp add: q onUnhandledRejection_def)
  have lines: "console ?q = console p @ [ConsoleLog shutdownMessage, ConsoleError err]"
    by (simp add: q onUnhandledRejection_def)
  have flight: "inFlight ?q = inFlight p" by (simp add: q onUnhandledRejection_def)
  have answers: "answered ?q = answered p" by (simp add: q onUnhandledRejection_def)
  from code have "exitCode ?q \<noteq> None" by simp
  then have ended: "runEvents ?q evs = ?q" by (rule runEvents_exited)
  show ?thesis by (intro conjI code lines flight answers ended)
qed

text \<open>
  Two requests are in flight when a promise is rejected; the answer that would have
  completed one of them comes too late.
\<close>

theorem unhandled_rejection_exits_witness:
  "exitCode idleProcess = None \<and>
   runEvents idleProcess
     [UnhandledRejection sampleError, RequestAnswered (getRequest ''/'') notFound,
      RequestArrived (getRequest ''/api/status'')] =
     \<lparr>exitCode = Some 1,
      console = [ConsoleLog ''Server running on port 4000'', ConsoleLog shutdownMessage,
                 ConsoleError sampleError],
      inFlight = [getRequest ''/api/products'', getRequest ''/''], answered = []\<rparr>"
proof -
  have running: "exitCode idleProcess = None" by (simp add: idleProcess_def)
  let ?after = "[RequestAnswered (getRequest ''/'') notFound, RequestArrived (getRequest ''/api/status'')]"
  note t = unhandled_rejection_exits [OF running, of sampleError ?after]
  let ?q = "processStep idleProcess (UnhandledRejection sampleError)"
  have "runEvents idleProcess (UnhandledRejection sampleError # ?after) = runEvents ?q ?after"
    by (simp add: runEvents_def)
  also have "\<dots> = ?q" using t by blast
  also have "?q = \<lparr>exitCode = exitCode ?q, console = console ?q, inFlight = inFlight ?q,
                    answered = answered ?q\<rparr>"
    by simp
  also have "\<dots> = \<lparr>exitCode = Some 1,
      console = [ConsoleLog ''Server running on port 4000'', ConsoleLog shutdownMessage,
                 ConsoleError sampleError],
      inFlight = [getRequest ''/api/products'', getRequest ''/''], answered = []\<rparr>"
    using t by (simp add: idleProcess_def)
  finally show ?thesis using running by simp
qed

end
